theory Spec2Isabelle
  imports Main "HOL-Library.Word" "HOL-Library.Monad_Syntax"
begin

unbundle bit_operations_syntax

section \<open>The DHCPv6 relay plugin of pppd (pppd/plugins/dhcpv6relay/dhcpv6relay.c)\<close>

type_synonym byte = "8 word"
type_synonym uint16 = "16 word"

subsection \<open>Constants of dhcpv6relay.h\<close>

text \<open>
  Modelled from the spec: the header \<^verbatim>\<open>dhcpv6relay.h\<close>, which declares the
  \<^verbatim>\<open>DHCPv6_MSGTYPE_*\<close> and \<^verbatim>\<open>DHCPv6_OPTION_*\<close> constants, is not among the sources.
  The spec lists the message types in the order SOLICIT, ADVERTISE, REQUEST, CONFIRM,
  RENEW, REBIND, REPLY, RELEASE, DECLINE, RECONFIGURE, INFORMATION_REQUEST, RELAY_FORW,
  RELAY_REPL, gives SOLICIT the value 1 and calls the option codes RFC-defined; the values
  below are those of RFC 8415 (message types, Relay Message option), RFC 4649 (Remote-ID),
  RFC 4580 (Subscriber-ID) and RFC 8357 (Relay Source Port).
\<close>

definition DHCPv6_MSGTYPE_SOLICIT :: byte where
  "DHCPv6_MSGTYPE_SOLICIT = 1"

definition DHCPv6_MSGTYPE_REPLY :: byte where
  "DHCPv6_MSGTYPE_REPLY = 7"

definition DHCPv6_MSGTYPE_RELAY_FORW :: byte where
  "DHCPv6_MSGTYPE_RELAY_FORW = 12"

definition DHCPv6_MSGTYPE_RELAY_REPL :: byte where
  "DHCPv6_MSGTYPE_RELAY_REPL = 13"

definition DHCPv6_OPTION_RELAY_MSG :: uint16 where
  "DHCPv6_OPTION_RELAY_MSG = 9"

definition DHCPv6_OPTION_REMOTE_ID :: uint16 where
  "DHCPv6_OPTION_REMOTE_ID = 37"

definition DHCPv6_OPTION_SUBSCRIBER_ID :: uint16 where
  "DHCPv6_OPTION_SUBSCRIBER_ID = 38"

definition DHCPv6_OPTION_RELAY_PORT :: uint16 where
  "DHCPv6_OPTION_RELAY_PORT = 135"

lemmas dhcpv6_consts =
  DHCPv6_MSGTYPE_SOLICIT_def DHCPv6_MSGTYPE_REPLY_def DHCPv6_MSGTYPE_RELAY_FORW_def
  DHCPv6_MSGTYPE_RELAY_REPL_def DHCPv6_OPTION_RELAY_MSG_def DHCPv6_OPTION_REMOTE_ID_def
  DHCPv6_OPTION_SUBSCRIBER_ID_def DHCPv6_OPTION_RELAY_PORT_def

subsection \<open>Socket addresses and byte order\<close>

datatype sa_family = AF_INET | AF_INET6 | AF_OTHER

text \<open>
  A \<^verbatim>\<open>struct sockaddr_in6\<close>. The port field holds what the host reads from the two
  bytes that the kernel stores in network byte order; \<^verbatim>\<open>sin6_addr\<close> is the array
  \<^verbatim>\<open>s6_addr[16]\<close>, indexed from 0.
\<close>

record sockaddr_in6 =
  sin6_family :: sa_family
  sin6_port :: uint16
  sin6_addr :: "nat \<Rightarrow> byte"
  sin6_scope_id :: nat

definition bswap16 :: "uint16 \<Rightarrow> uint16" where
  "bswap16 x = push_bit 8 x OR drop_bit 8 x"

text \<open>\<^verbatim>\<open>htons\<close> and \<^verbatim>\<open>ntohs\<close> of the C library: a byte swap on a little-endian host,
  the identity on a big-endian one.\<close>

definition htons :: "bool \<Rightarrow> uint16 \<Rightarrow> uint16" where
  "htons little_endian x = (if little_endian then bswap16 x else x)"

definition ntohs :: "bool \<Rightarrow> uint16 \<Rightarrow> uint16" where
  "ntohs little_endian x = (if little_endian then bswap16 x else x)"

subsection \<open>Module state and the host process\<close>

text \<open>
  The file-scope variables of the plugin, together with the part of the host process and
  the kernel that the plugin acts on: the descriptors that are open, the descriptors
  registered with \<^verbatim>\<open>add_fd_callback\<close>, and the datagrams that \<^verbatim>\<open>sendmsg\<close> has
  accepted, each with the descriptor it was written to.
\<close>

record relay =
  dhcpv6relay_trusted :: bool
  dhcpv6relay_server :: "string option"
  dhcpv6relay_sock_ll :: int
  dhcpv6relay_sock_mc :: int
  dhcpv6relay_upstream :: int
  open_fds :: "int set"
  fd_callbacks :: "int set"
  transmitted :: "(int \<times> byte list) list"

text \<open>\<^verbatim>\<open>remove_fd(fd); close(fd);\<close>\<close>

definition remove_and_close :: "int \<Rightarrow> relay \<Rightarrow> relay" where
  "remove_and_close fd st =
     st\<lparr>fd_callbacks := fd_callbacks st - {fd}, open_fds := open_fds st - {fd}\<rparr>"

definition dhcpv6relay_down :: "relay \<Rightarrow> relay" where
  "dhcpv6relay_down st =
     (let st1 = (if dhcpv6relay_sock_ll st \<ge> 0
                 then (remove_and_close (dhcpv6relay_sock_ll st) st)\<lparr>dhcpv6relay_sock_ll := -1\<rparr>
                 else st);
          st2 = (if dhcpv6relay_sock_mc st1 \<ge> 0
                 then (remove_and_close (dhcpv6relay_sock_mc st1) st1)\<lparr>dhcpv6relay_sock_mc := -1\<rparr>
                 else st1)
      in st2)"

subsection \<open>Link-up\<close>

text \<open>An entry of the list that \<^verbatim>\<open>getifaddrs\<close> returns.\<close>

record ifaddrs =
  ifa_name :: string
  ifa_addr :: "sockaddr_in6 option"

text \<open>
  The loop of \<^verbatim>\<open>dhcpv6relay_populate_ll\<close> over the interface addresses; the first
  argument is \<^verbatim>\<open>ppp_ifname()\<close>. It returns the first IPv6 address with a non-zero scope
  on the PPP interface.
\<close>

fun populate_ll_loop :: "string \<Rightarrow> ifaddrs list \<Rightarrow> sockaddr_in6 option" where
  "populate_ll_loop ifname [] = None"
| "populate_ll_loop ifname (ifa # ifap) =
     (case ifa_addr ifa of
        None \<Rightarrow> populate_ll_loop ifname ifap
      | Some sa6 \<Rightarrow>
          if sin6_family sa6 \<noteq> AF_INET6 then populate_ll_loop ifname ifap
          else if sin6_scope_id sa6 = 0 then populate_ll_loop ifname ifap
          else if ifa_name ifa \<noteq> ifname then populate_ll_loop ifname ifap
          else Some sa6)"

text \<open>\<^verbatim>\<open>getifaddrs\<close> fails when its result is \<open>None\<close>.\<close>

definition dhcpv6relay_populate_ll :: "string \<Rightarrow> ifaddrs list option \<Rightarrow> sockaddr_in6 option" where
  "dhcpv6relay_populate_ll ifname getifaddrs_result =
     (case getifaddrs_result of None \<Rightarrow> None | Some ifap \<Rightarrow> populate_ll_loop ifname ifap)"

text \<open>
  What the system answers during one run of \<^verbatim>\<open>dhcpv6relay_up\<close>. A call of
  \<^verbatim>\<open>socket\<close> returns a new non-negative descriptor, or fails and returns -1.
\<close>

record up_io =
  up_ifname :: string
  up_getifaddrs :: "ifaddrs list option"
  up_getservbyname :: "uint16 option"
  up_socket_ll :: "nat option"
  up_bind_ll_ok :: bool
  up_inet_pton_ok :: bool
  up_join_group_ok :: bool
  up_socket_mc :: "nat option"
  up_bind_mc_ok :: bool

definition sys_socket :: "nat option \<Rightarrow> int" where
  "sys_socket res = (case res of None \<Rightarrow> -1 | Some fd \<Rightarrow> int fd)"

text \<open>The descriptors open after \<^verbatim>\<open>socket\<close> has returned \<open>fd\<close>.\<close>

definition opened :: "int \<Rightarrow> int set \<Rightarrow> int set" where
  "opened fd fds = (if fd \<ge> 0 then insert fd fds else fds)"

definition dhcpv6relay_up :: "up_io \<Rightarrow> relay \<Rightarrow> relay" where
  "dhcpv6relay_up io st =
     (if dhcpv6relay_server st = None then st
      else case dhcpv6relay_populate_ll (up_ifname io) (up_getifaddrs io) of
        None \<Rightarrow> st
      | Some sa \<Rightarrow>
     (case up_getservbyname io of
        None \<Rightarrow> st
      | Some s_port \<Rightarrow>
     (let st1 = st\<lparr>dhcpv6relay_sock_ll := sys_socket (up_socket_ll io),
                    open_fds := opened (sys_socket (up_socket_ll io)) (open_fds st)\<rparr>
      in if dhcpv6relay_sock_ll st1 < 0 then dhcpv6relay_down st1
         else if \<not> up_bind_ll_ok io then dhcpv6relay_down st1
         else if \<not> up_inet_pton_ok io then dhcpv6relay_down st1
         else if \<not> up_join_group_ok io then dhcpv6relay_down st1
         else
     (let st2 = st1\<lparr>dhcpv6relay_sock_mc := sys_socket (up_socket_mc io),
                     open_fds := opened (sys_socket (up_socket_mc io)) (open_fds st1)\<rparr>
      in if dhcpv6relay_sock_mc st2 < 0 then dhcpv6relay_down st2
         else if \<not> up_bind_mc_ok io then dhcpv6relay_down st2
         else st2\<lparr>fd_callbacks :=
                     insert (dhcpv6relay_sock_mc st2)
                       (insert (dhcpv6relay_sock_ll st2) (fd_callbacks st2))\<rparr>))))"

subsection \<open>Creating the upstream socket\<close>

text \<open>
  What the system answers during one run of \<^verbatim>\<open>dhcpv6relay_client_event\<close>:
  \<^item> \<open>io_recvfrom\<close>: the datagram waiting on the socket and its source address, or
    \<open>None\<close> when \<^verbatim>\<open>recvfrom\<close> fails (it is called with \<^verbatim>\<open>MSG_DONTWAIT\<close>);
  \<^item> \<open>io_stack\<close>: what the array \<^verbatim>\<open>buffer\<close>, which is not initialised, holds on entry;
  \<^item> \<open>io_socket\<close>, \<open>io_connect_ok\<close>: the results of \<^verbatim>\<open>socket\<close> and \<^verbatim>\<open>connect\<close>;
  \<^item> \<open>io_getsockname\<close>: the local address of the upstream socket, or \<open>None\<close> on failure;
  \<^item> \<open>io_little_endian\<close>: the byte order of the host;
  \<^item> \<open>io_remote_number\<close>, \<open>io_peer_authname\<close>: the strings returned by
    \<^verbatim>\<open>ppp_get_remote_number()\<close> and \<^verbatim>\<open>ppp_peer_authname(NULL, 0)\<close>, \<open>None\<close> for a null
    pointer;
  \<^item> \<open>io_sendmsg_ok\<close>: whether \<^verbatim>\<open>sendmsg\<close> succeeds.
\<close>

record client_io =
  io_recvfrom :: "(byte list \<times> sockaddr_in6) option"
  io_stack :: "nat \<Rightarrow> byte"
  io_socket :: "nat option"
  io_connect_ok :: bool
  io_getsockname :: "sockaddr_in6 option"
  io_little_endian :: bool
  io_remote_number :: "byte list option"
  io_peer_authname :: "byte list option"
  io_sendmsg_ok :: bool

definition dhcpv6relay_init_upstream :: "client_io \<Rightarrow> relay \<Rightarrow> bool \<times> relay" where
  "dhcpv6relay_init_upstream io st =
     (let st1 = st\<lparr>dhcpv6relay_upstream := sys_socket (io_socket io),
                    open_fds := opened (sys_socket (io_socket io)) (open_fds st)\<rparr>
      in if dhcpv6relay_upstream st1 < 0 then (False, st1)
         else if \<not> io_connect_ok io
         then (False, st1\<lparr>open_fds := open_fds st1 - {dhcpv6relay_upstream st1},
                          dhcpv6relay_upstream := -1\<rparr>)
         else (True, st1))"

text \<open>Line 235: \<^verbatim>\<open>dhcpv6relay_upstream < 0 && !dhcpv6relay_init_upstream()\<close>; the socket is
  created only when there is none. The first component is false when the handler returns.\<close>

definition ensure_upstream :: "client_io \<Rightarrow> relay \<Rightarrow> bool \<times> relay" where
  "ensure_upstream io st =
     (if dhcpv6relay_upstream st < 0 then dhcpv6relay_init_upstream io st else (True, st))"

subsection \<open>The per-datagram handler\<close>

text \<open>
  \<^verbatim>\<open>recvfrom(fd, buffer, sizeof(buffer), MSG_DONTWAIT, &sa, &slen)\<close> with the 1024-byte
  array \<^verbatim>\<open>buffer\<close>: the kernel copies at most 1024 bytes of the datagram, discards the
  rest and returns the number of bytes copied. The result is that number, the array after
  the call (indexed from 0; the bytes beyond the copy keep what the stack held) and the
  source address.
\<close>

definition received_buffer :: "byte list \<Rightarrow> (nat \<Rightarrow> byte) \<Rightarrow> nat \<Rightarrow> byte" where
  "received_buffer dgram stack = (\<lambda>i. if i < min (length dgram) 1024 then dgram ! i else stack i)"

definition recvfrom :: "client_io \<Rightarrow> (nat \<times> (nat \<Rightarrow> byte) \<times> sockaddr_in6) option" where
  "recvfrom io =
     (case io_recvfrom io of
        None \<Rightarrow> None
      | Some (dgram, src) \<Rightarrow>
          Some (min (length dgram) 1024, received_buffer dgram (io_stack io), src))"

text \<open>
  The macros \<^verbatim>\<open>push_checkbytes\<close>, \<^verbatim>\<open>push_uint16\<close> and \<^verbatim>\<open>push_bytes\<close>. The list
  \<open>fwd_head\<close> is the written part \<^verbatim>\<open>fwd_head[0 .. v[0].iov_len - 1]\<close> of the 256-byte array,
  so \<^verbatim>\<open>v[0].iov_len\<close> is its length. \<open>push_checkbytes\<close> holds when the macro reports the
  error and returns from the handler; the pushes then give \<open>None\<close>. \<open>push_bytes\<close> copies
  \<open>bytes\<close> bytes from \<open>ptr\<close>; the handler calls it with a string and its \<^verbatim>\<open>strlen\<close>.
\<close>

definition push_checkbytes :: "nat \<Rightarrow> byte list \<Rightarrow> bool" where
  "push_checkbytes x fwd_head \<longleftrightarrow> x + length fwd_head > 256"

definition push_uint16 :: "uint16 \<Rightarrow> byte list \<Rightarrow> byte list option" where
  "push_uint16 t fwd_head =
     (if push_checkbytes 2 fwd_head then None
      else Some (fwd_head @ [ucast (drop_bit 8 t), ucast (t AND 0xFF)]))"

definition push_bytes :: "byte list \<Rightarrow> nat \<Rightarrow> byte list \<Rightarrow> byte list option" where
  "push_bytes ptr bytes fwd_head =
     (if push_checkbytes bytes fwd_head then None
      else Some (fwd_head @ take bytes ptr))"

text \<open>Lines 239 to 243: the 34 bytes of the outer header.\<close>

definition forward_header :: "(nat \<Rightarrow> byte) \<Rightarrow> sockaddr_in6 \<Rightarrow> byte list" where
  "forward_header buffer sa =
     [DHCPv6_MSGTYPE_RELAY_FORW,
      if buffer 0 = DHCPv6_MSGTYPE_RELAY_FORW then buffer 1 + 1 else 0]
     @ replicate 16 0
     @ map (sin6_addr sa) [0..<16]"

text \<open>
  Lines 270 to 292: the options, pushed after the header. \<open>sport\<close> is the port field of
  the address that \<^verbatim>\<open>getsockname\<close> gave for the upstream socket, \<open>r\<close> the length of the
  datagram read (\<^verbatim>\<open>v[1].iov_len\<close>).
\<close>

definition push_options ::
  "bool \<Rightarrow> uint16 \<Rightarrow> byte list option \<Rightarrow> byte list option \<Rightarrow> nat \<Rightarrow> byte list \<Rightarrow> byte list option"
where
  "push_options little_endian sport remote_id subscriber_id r fwd_head0 =
     do {
       h \<leftarrow> push_uint16 DHCPv6_OPTION_RELAY_PORT fwd_head0;
       h \<leftarrow> push_uint16 2 h;
       h \<leftarrow> push_uint16 (ntohs little_endian sport) h;
       h \<leftarrow> (case remote_id of
               None \<Rightarrow> Some h
             | Some s \<Rightarrow> do {
                 h \<leftarrow> push_uint16 DHCPv6_OPTION_REMOTE_ID h;
                 h \<leftarrow> push_uint16 (of_nat (length s)) h;
                 push_bytes s (length s) h
               });
       h \<leftarrow> (case subscriber_id of
               None \<Rightarrow> Some h
             | Some s \<Rightarrow> do {
                 h \<leftarrow> push_uint16 DHCPv6_OPTION_SUBSCRIBER_ID h;
                 h \<leftarrow> push_uint16 (of_nat (length s)) h;
                 push_bytes s (length s) h
               });
       h \<leftarrow> push_uint16 DHCPv6_OPTION_RELAY_MSG h;
       push_uint16 (of_nat r) h
     }"

text \<open>The ways in which \<^verbatim>\<open>dhcpv6relay_client_event\<close> returns; all but the last log a
  message. The descriptor that the handler is called with only selects the word LL or MC in
  these messages and is left out.\<close>

datatype outcome =
    Read_failed
  | Buffer_overrun
  | Discarded_reply
  | Discarded_untrusted_relay
  | Upstream_failed
  | Getsockname_failed
  | Not_IP
  | Overflow_avoided
  | Transmit_failed
  | Transmitted

text \<open>
  Lines 238 to 301, reached once the upstream socket exists: header, \<^verbatim>\<open>getsockname\<close>,
  the port of the upstream socket, the options, and \<^verbatim>\<open>sendmsg\<close> of the two segments
  \<^verbatim>\<open>v[0]\<close> (header and options) and \<^verbatim>\<open>v[1]\<close> (the first \<open>r\<close> bytes of \<^verbatim>\<open>buffer\<close>).
\<close>

definition relay_forward ::
  "client_io \<Rightarrow> nat \<Rightarrow> (nat \<Rightarrow> byte) \<Rightarrow> sockaddr_in6 \<Rightarrow> relay \<Rightarrow> outcome \<times> relay"
where
  "relay_forward io r buffer sa st =
     (let fwd_head = forward_header buffer sa
      in case io_getsockname io of
        None \<Rightarrow> (Getsockname_failed, st)
      | Some sa' \<Rightarrow>
     (case (case sin6_family sa' of
              AF_INET \<Rightarrow> Some (sin6_port sa')
            | AF_INET6 \<Rightarrow> Some (sin6_port sa')
            | AF_OTHER \<Rightarrow> None) of
        None \<Rightarrow> (Not_IP, st)
      | Some sport \<Rightarrow>
     (case push_options (io_little_endian io) sport
             (io_remote_number io) (io_peer_authname io) r fwd_head of
        None \<Rightarrow> (Overflow_avoided, st)
      | Some fwd_head' \<Rightarrow>
          if io_sendmsg_ok io
          then (Transmitted,
                st\<lparr>transmitted := transmitted st
                     @ [(dhcpv6relay_upstream st, fwd_head' @ map buffer [0..<r])]\<rparr>)
          else (Transmit_failed, st))))"

definition dhcpv6relay_client_event :: "client_io \<Rightarrow> relay \<Rightarrow> outcome \<times> relay" where
  "dhcpv6relay_client_event io st =
     (case recvfrom io of
        None \<Rightarrow> (Read_failed, st)
      | Some (r, buffer, sa) \<Rightarrow>
          if r \<ge> 1024 then (Buffer_overrun, st)
          else if buffer 0 = DHCPv6_MSGTYPE_REPLY \<or> buffer 0 = DHCPv6_MSGTYPE_RELAY_REPL
          then (Discarded_reply, st)
          else if \<not> dhcpv6relay_trusted st \<and> buffer 0 = DHCPv6_MSGTYPE_RELAY_FORW
          then (Discarded_untrusted_relay, st)
          else
            (case ensure_upstream io st of
               (False, st1) \<Rightarrow> (Upstream_failed, st1)
             | (True, st1) \<Rightarrow> relay_forward io r buffer sa st1))"

text \<open>The initial values of the file-scope variables, in a process with no descriptor open.\<close>

definition relay_initial :: relay where
  "relay_initial =
     \<lparr>dhcpv6relay_trusted = False, dhcpv6relay_server = None,
      dhcpv6relay_sock_ll = -1, dhcpv6relay_sock_mc = -1, dhcpv6relay_upstream = -1,
      open_fds = {}, fd_callbacks = {}, transmitted = []\<rparr>"

subsection \<open>The wire format, as the specification words it\<close>

text \<open>
  These definitions follow the specification, not the code; the theorems below compare the
  bytes that the handler transmits with them. A 16-bit field is two bytes, the most
  significant first; an option is a 2-byte code, a 2-byte length and the value.
\<close>

definition be16 :: "nat \<Rightarrow> byte list" where
  "be16 n = [of_nat (n div 256), of_nat (n mod 256)]"

definition spec_tlv :: "uint16 \<Rightarrow> byte list \<Rightarrow> byte list" where
  "spec_tlv code val = be16 (unat code) @ be16 (length val) @ val"

definition spec_optional_tlv :: "uint16 \<Rightarrow> byte list option \<Rightarrow> byte list" where
  "spec_optional_tlv code val = (case val of None \<Rightarrow> [] | Some s \<Rightarrow> spec_tlv code s)"

text \<open>The options region: RELAY_PORT, REMOTE_ID if available, SUBSCRIBER_ID if available,
  RELAY_MSG with the original datagram as its value.\<close>

definition spec_options ::
  "nat \<Rightarrow> byte list option \<Rightarrow> byte list option \<Rightarrow> byte list \<Rightarrow> byte list"
where
  "spec_options port remote_id subscriber_id dgram =
     spec_tlv DHCPv6_OPTION_RELAY_PORT (be16 port)
     @ spec_optional_tlv DHCPv6_OPTION_REMOTE_ID remote_id
     @ spec_optional_tlv DHCPv6_OPTION_SUBSCRIBER_ID subscriber_id
     @ spec_tlv DHCPv6_OPTION_RELAY_MSG dgram"

text \<open>The total encoded size: the 34-byte header and the options, without the value of
  RELAY_MSG.\<close>

definition spec_encoded_size :: "byte list option \<Rightarrow> byte list option \<Rightarrow> nat" where
  "spec_encoded_size remote_id subscriber_id =
     34 + 6
     + length (spec_optional_tlv DHCPv6_OPTION_REMOTE_ID remote_id)
     + length (spec_optional_tlv DHCPv6_OPTION_SUBSCRIBER_ID subscriber_id)
     + 4"

subsection \<open>Concrete inputs\<close>

text \<open>A link that is up, with the listening sockets on descriptors 3 and 4 and no upstream
  socket yet.\<close>

definition relay_up :: relay where
  "relay_up =
     \<lparr>dhcpv6relay_trusted = False, dhcpv6relay_server = Some ''dhcp.example.net'',
      dhcpv6relay_sock_ll = 3, dhcpv6relay_sock_mc = 4, dhcpv6relay_upstream = -1,
      open_fds = {3, 4}, fd_callbacks = {3, 4}, transmitted = []\<rparr>"

text \<open>The same link once the upstream socket has been created, on descriptor 5.\<close>

definition relay_connected :: relay where
  "relay_connected = relay_up\<lparr>dhcpv6relay_upstream := 5, open_fds := {3, 4, 5}\<rparr>"

text \<open>A client at \<^verbatim>\<open>fe80::1\<close>, source port 546, and the upstream socket bound to
  \<^verbatim>\<open>[::]:40000\<close>, on a little-endian host.\<close>

definition client_source :: sockaddr_in6 where
  "client_source =
     \<lparr>sin6_family = AF_INET6, sin6_port = htons True 546,
      sin6_addr = (\<lambda>i. if i = 0 then 0xFE else if i = 1 then 0x80 else if i = 15 then 1 else 0),
      sin6_scope_id = 7\<rparr>"

text \<open>The link-local address \<^verbatim>\<open>fe80::2\<close> of the PPP interface.\<close>

definition ppp_link_local :: sockaddr_in6 where
  "ppp_link_local =
     \<lparr>sin6_family = AF_INET6, sin6_port = 0,
      sin6_addr = (\<lambda>i. if i = 0 then 0xFE else if i = 1 then 0x80 else if i = 15 then 2 else 0),
      sin6_scope_id = 7\<rparr>"

definition upstream_local :: sockaddr_in6 where
  "upstream_local =
     \<lparr>sin6_family = AF_INET6, sin6_port = htons True 40000,
      sin6_addr = (\<lambda>i. 0), sin6_scope_id = 0\<rparr>"

text \<open>The system answering a datagram \<open>dgram\<close> from that client with every call succeeding;
  \<open>stale\<close> is the byte that fills the uninitialised \<^verbatim>\<open>buffer\<close> on entry.\<close>

definition client_sends :: "byte list \<Rightarrow> byte \<Rightarrow> client_io" where
  "client_sends dgram stale =
     \<lparr>io_recvfrom = Some (dgram, client_source), io_stack = (\<lambda>i. stale),
      io_socket = Some 5, io_connect_ok = True, io_getsockname = Some upstream_local,
      io_little_endian = True, io_remote_number = None, io_peer_authname = None,
      io_sendmsg_ok = True\<rparr>"

text \<open>Every call that the handler makes after classification succeeds, and the upstream
  socket is bound to an IPv4 or IPv6 address.\<close>

definition calls_succeed :: "client_io \<Rightarrow> bool" where
  "calls_succeed io \<longleftrightarrow>
     io_socket io \<noteq> None \<and> io_connect_ok io
     \<and> (case io_getsockname io of None \<Rightarrow> False | Some sa' \<Rightarrow> sin6_family sa' \<noteq> AF_OTHER)
     \<and> io_sendmsg_ok io"

text \<open>The guards of lines 203 to 233 all let the datagram through: a datagram was read, it
  is shorter than the buffer, and its first byte is not refused.\<close>

definition passes_classification :: "client_io \<Rightarrow> relay \<Rightarrow> bool" where
  "passes_classification io st \<longleftrightarrow>
     (case recvfrom io of
        None \<Rightarrow> False
      | Some (r, buffer, sa) \<Rightarrow>
          r < 1024
          \<and> buffer 0 \<noteq> DHCPv6_MSGTYPE_REPLY \<and> buffer 0 \<noteq> DHCPv6_MSGTYPE_RELAY_REPL
          \<and> (dhcpv6relay_trusted st \<or> buffer 0 \<noteq> DHCPv6_MSGTYPE_RELAY_FORW))"

text \<open>A link-up in which every call succeeds and \<^verbatim>\<open>socket\<close> returns 3 and then 4.\<close>

definition link_up_ok :: up_io where
  "link_up_ok =
     \<lparr>up_ifname = ''ppp0'',
      up_getifaddrs = Some [\<lparr>ifa_name = ''lo'', ifa_addr = None\<rparr>,
                            \<lparr>ifa_name = ''ppp0'', ifa_addr = Some ppp_link_local\<rparr>],
      up_getservbyname = Some (htons True 547),
      up_socket_ll = Some 3, up_bind_ll_ok = True, up_inet_pton_ok = True,
      up_join_group_ok = True, up_socket_mc = Some 4, up_bind_mc_ok = True\<rparr>"

section \<open>Encoding lemmas\<close>

lemma bswap16_bswap16: "bswap16 (bswap16 x) = x"
  unfolding bswap16_def
  by (rule bit_word_eqI) (auto simp add: bit_simps)

lemma ntohs_htons: "ntohs le (htons le x) = x"
  by (simp add: ntohs_def htons_def bswap16_bswap16)

lemma hi_byte: "(ucast (drop_bit 8 (t::uint16)) :: byte) = of_nat (unat t div 256)"
proof -
  have "unat (drop_bit 8 t) = unat t div 256"
    by (simp add: unat_drop_bit_eq drop_bit_eq_div unat_div)
  then show ?thesis
    by (metis of_nat_unat)
qed

lemma lo_byte: "(ucast ((t::uint16) AND 0xFF) :: byte) = of_nat (unat t mod 256)"
proof -
  have "t AND 0xFF = take_bit 8 t"
    by (simp add: take_bit_eq_mask mask_eq_exp_minus_1)
  then have "unat (t AND 0xFF) = unat t mod 256"
    by (simp add: unsigned_take_bit_eq take_bit_eq_mod unat_mod)
  then show ?thesis
    by (metis of_nat_unat)
qed

lemma mod_65536_div_256: "((n::nat) mod 65536 div 256) mod 256 = (n div 256) mod 256"
proof -
  have "n mod 65536 = n mod (256 * 256)" by simp
  then show ?thesis by (simp only: mod_mult2_eq) simp
qed

lemma be16_mod: "be16 (n mod 65536) = be16 n"
  using mod_65536_div_256 [of n]
  by (simp add: be16_def word_of_nat_eq_iff take_bit_eq_mod mod_mod_cancel)

lemma be16_unat_of_nat: "be16 (unat (of_nat n :: uint16)) = be16 n"
  using be16_mod [of n] by (simp add: unat_of_nat take_bit_eq_mod)

lemma be16_length [simp]: "length (be16 n) = 2"
  by (simp add: be16_def)

text \<open>\<open>be16\<close> is the big-endian encoding: the first byte is the high one.\<close>

lemma be16_decode: "n < 65536 \<Longrightarrow> unat (be16 n ! 0) * 256 + unat (be16 n ! 1) = n"
  by (simp add: be16_def unat_of_nat take_bit_eq_mod)

lemma spec_tlv_length [simp]: "length (spec_tlv code val) = 4 + length val"
  by (simp add: spec_tlv_def)

lemma push_uint16_eq:
  "push_uint16 t h = (if length h + 2 \<le> 256 then Some (h @ be16 (unat t)) else None)"
  by (auto simp add: push_uint16_def push_checkbytes_def be16_def hi_byte lo_byte)

lemma push_bytes_eq:
  "push_bytes s (length s) h = (if length h + length s \<le> 256 then Some (h @ s) else None)"
  by (auto simp add: push_bytes_def push_checkbytes_def)

lemma forward_header_length [simp]: "length (forward_header buffer sa) = 34"
  by (simp add: forward_header_def)

lemma push_options_eq:
  "push_options le sport rid sid r h0 =
     (if length h0 + spec_encoded_size rid sid \<le> 256 + 34
      then Some (h0 @ spec_tlv DHCPv6_OPTION_RELAY_PORT (be16 (unat (ntohs le sport)))
                 @ spec_optional_tlv DHCPv6_OPTION_REMOTE_ID rid
                 @ spec_optional_tlv DHCPv6_OPTION_SUBSCRIBER_ID sid
                 @ be16 (unat DHCPv6_OPTION_RELAY_MSG) @ be16 r)
      else None)"
proof (cases rid; cases sid)
  show "rid = None \<Longrightarrow> sid = None \<Longrightarrow> ?thesis"
    by (simp add: push_options_def push_uint16_eq be16_unat_of_nat push_bytes_eq
        spec_encoded_size_def spec_optional_tlv_def spec_tlv_def)
  show "\<And>a. rid = None \<Longrightarrow> sid = Some a \<Longrightarrow> ?thesis"
    by (simp add: push_options_def push_uint16_eq be16_unat_of_nat push_bytes_eq
        spec_encoded_size_def spec_optional_tlv_def spec_tlv_def)
  show "\<And>a. rid = Some a \<Longrightarrow> sid = None \<Longrightarrow> ?thesis"
    by (simp add: push_options_def push_uint16_eq be16_unat_of_nat push_bytes_eq
        spec_encoded_size_def spec_optional_tlv_def spec_tlv_def)
  show "\<And>a b. rid = Some a \<Longrightarrow> sid = Some b \<Longrightarrow> ?thesis"
    by (simp add: push_options_def push_uint16_eq be16_unat_of_nat push_bytes_eq
        spec_encoded_size_def spec_optional_tlv_def spec_tlv_def)
qed

section \<open>Handler lemmas\<close>

lemma received_buffer_map:
  assumes "length dgram < 1024"
  shows "map (received_buffer dgram stack) [0..<length dgram] = dgram"
proof -
  have "map (received_buffer dgram stack) [0..<length dgram] = map ((!) dgram) [0..<length dgram]"
    using assms by (intro map_cong) (auto simp add: received_buffer_def)
  then show ?thesis
    by (simp add: map_nth)
qed

lemma received_buffer_nth:
  "i < length dgram \<Longrightarrow> length dgram < 1024 \<Longrightarrow> received_buffer dgram stack i = dgram ! i"
  by (simp add: received_buffer_def)

lemma init_upstream_frame:
  "transmitted (snd (dhcpv6relay_init_upstream io st)) = transmitted st
   \<and> fd_callbacks (snd (dhcpv6relay_init_upstream io st)) = fd_callbacks st
   \<and> dhcpv6relay_sock_ll (snd (dhcpv6relay_init_upstream io st)) = dhcpv6relay_sock_ll st
   \<and> dhcpv6relay_sock_mc (snd (dhcpv6relay_init_upstream io st)) = dhcpv6relay_sock_mc st
   \<and> dhcpv6relay_trusted (snd (dhcpv6relay_init_upstream io st)) = dhcpv6relay_trusted st"
  by (simp add: dhcpv6relay_init_upstream_def Let_def)

lemma ensure_upstream_frame:
  "transmitted (snd (ensure_upstream io st)) = transmitted st
   \<and> fd_callbacks (snd (ensure_upstream io st)) = fd_callbacks st
   \<and> dhcpv6relay_sock_ll (snd (ensure_upstream io st)) = dhcpv6relay_sock_ll st
   \<and> dhcpv6relay_sock_mc (snd (ensure_upstream io st)) = dhcpv6relay_sock_mc st
   \<and> dhcpv6relay_trusted (snd (ensure_upstream io st)) = dhcpv6relay_trusted st"
  by (simp add: ensure_upstream_def init_upstream_frame)

lemma ensure_upstream_connected:
  "0 \<le> dhcpv6relay_upstream st \<Longrightarrow> ensure_upstream io st = (True, st)"
  by (simp add: ensure_upstream_def)

lemma ensure_upstream_created:
  "dhcpv6relay_upstream st < 0 \<Longrightarrow> io_socket io = Some fd \<Longrightarrow> io_connect_ok io \<Longrightarrow>
   ensure_upstream io st =
     (True, st\<lparr>dhcpv6relay_upstream := int fd, open_fds := insert (int fd) (open_fds st)\<rparr>)"
  by (simp add: ensure_upstream_def dhcpv6relay_init_upstream_def sys_socket_def opened_def Let_def)

lemma ensure_upstream_failed:
  "dhcpv6relay_upstream st < 0 \<Longrightarrow> io_socket io = None \<or> \<not> io_connect_ok io \<Longrightarrow>
   ensure_upstream io st =
     (False, st\<lparr>dhcpv6relay_upstream := -1,
                 open_fds := (case io_socket io of None \<Rightarrow> open_fds st
                              | Some fd \<Rightarrow> open_fds st - {int fd})\<rparr>)"
  by (auto simp add: ensure_upstream_def dhcpv6relay_init_upstream_def sys_socket_def opened_def
      Let_def split: option.splits)

lemma ensure_upstream_succeeds:
  "io_socket io \<noteq> None \<Longrightarrow> io_connect_ok io \<Longrightarrow> fst (ensure_upstream io st)"
  by (auto simp add: ensure_upstream_def dhcpv6relay_init_upstream_def sys_socket_def opened_def
      Let_def split: option.splits)

lemma relay_forward_eq:
  assumes "io_getsockname io = Some sa'" and "sin6_family sa' \<noteq> AF_OTHER"
  shows "relay_forward io r buffer sa st =
    (if spec_encoded_size (io_remote_number io) (io_peer_authname io) \<le> 256
     then if io_sendmsg_ok io
          then (Transmitted,
                st\<lparr>transmitted := transmitted st
                  @ [(dhcpv6relay_upstream st,
                      forward_header buffer sa
                      @ spec_tlv DHCPv6_OPTION_RELAY_PORT
                          (be16 (unat (ntohs (io_little_endian io) (sin6_port sa'))))
                      @ spec_optional_tlv DHCPv6_OPTION_REMOTE_ID (io_remote_number io)
                      @ spec_optional_tlv DHCPv6_OPTION_SUBSCRIBER_ID (io_peer_authname io)
                      @ be16 (unat DHCPv6_OPTION_RELAY_MSG) @ be16 r
                      @ map buffer [0..<r])]\<rparr>)
          else (Transmit_failed, st)
     else (Overflow_avoided, st))"
  using assms
  by (cases "sin6_family sa'") (simp_all add: relay_forward_def push_options_eq)

lemma relay_forward_not_transmitted:
  "fst (relay_forward io r buffer sa st) \<noteq> Transmitted \<Longrightarrow>
   snd (relay_forward io r buffer sa st) = st"
  by (auto simp add: relay_forward_def Let_def split: option.splits sa_family.splits if_splits)

lemma relay_forward_outcomes:
  "fst (relay_forward io r buffer sa st)
     \<in> {Getsockname_failed, Not_IP, Overflow_avoided, Transmit_failed, Transmitted}"
  by (auto simp add: relay_forward_def Let_def split: option.splits sa_family.splits if_splits)

lemma relay_forward_frame:
  "dhcpv6relay_upstream (snd (relay_forward io r buffer sa st)) = dhcpv6relay_upstream st
   \<and> open_fds (snd (relay_forward io r buffer sa st)) = open_fds st
   \<and> fd_callbacks (snd (relay_forward io r buffer sa st)) = fd_callbacks st
   \<and> dhcpv6relay_sock_ll (snd (relay_forward io r buffer sa st)) = dhcpv6relay_sock_ll st
   \<and> dhcpv6relay_sock_mc (snd (relay_forward io r buffer sa st)) = dhcpv6relay_sock_mc st
   \<and> dhcpv6relay_trusted (snd (relay_forward io r buffer sa st)) = dhcpv6relay_trusted st"
  by (simp add: relay_forward_def Let_def split: option.splits sa_family.splits)

text \<open>The handler once \<^verbatim>\<open>recvfrom\<close> has returned a datagram.\<close>

lemma client_event_eq:
  assumes "io_recvfrom io = Some (dgram, src)"
  shows "dhcpv6relay_client_event io st =
    (if length dgram \<ge> 1024 then (Buffer_overrun, st)
     else if received_buffer dgram (io_stack io) 0 = DHCPv6_MSGTYPE_REPLY
           \<or> received_buffer dgram (io_stack io) 0 = DHCPv6_MSGTYPE_RELAY_REPL
     then (Discarded_reply, st)
     else if \<not> dhcpv6relay_trusted st
           \<and> received_buffer dgram (io_stack io) 0 = DHCPv6_MSGTYPE_RELAY_FORW
     then (Discarded_untrusted_relay, st)
     else if fst (ensure_upstream io st)
     then relay_forward io (length dgram) (received_buffer dgram (io_stack io)) src
            (snd (ensure_upstream io st))
     else (Upstream_failed, snd (ensure_upstream io st)))"
  using assms
  by (simp add: dhcpv6relay_client_event_def recvfrom_def split: prod.splits bool.splits)

lemma relay_forward_TransmittedD:
  assumes "fst (relay_forward io r buffer sa st) = Transmitted"
  shows "\<exists>sa'. io_getsockname io = Some sa' \<and> sin6_family sa' \<noteq> AF_OTHER"
    and "spec_encoded_size (io_remote_number io) (io_peer_authname io) \<le> 256"
    and "io_sendmsg_ok io"
proof -
  from assms show sa: "\<exists>sa'. io_getsockname io = Some sa' \<and> sin6_family sa' \<noteq> AF_OTHER"
    by (auto simp add: relay_forward_def Let_def split: option.splits sa_family.splits)
  then obtain sa' where sa': "io_getsockname io = Some sa'" "sin6_family sa' \<noteq> AF_OTHER"
    by blast
  from assms show "spec_encoded_size (io_remote_number io) (io_peer_authname io) \<le> 256"
    by (simp add: relay_forward_eq [OF sa'] split: if_splits)
  from assms show "io_sendmsg_ok io"
    by (simp add: relay_forward_eq [OF sa'] split: if_splits)
qed

lemma spec_options_append:
  "spec_tlv DHCPv6_OPTION_RELAY_PORT (be16 port)
     @ spec_optional_tlv DHCPv6_OPTION_REMOTE_ID rid
     @ spec_optional_tlv DHCPv6_OPTION_SUBSCRIBER_ID sid
     @ be16 (unat DHCPv6_OPTION_RELAY_MSG) @ be16 (length dgram) @ dgram
   = spec_options port rid sid dgram"
  by (simp add: spec_options_def spec_tlv_def)

text \<open>What a run that ends in a transmission has done.\<close>

lemma client_event_Transmitted:
  assumes ev: "dhcpv6relay_client_event io st = (Transmitted, st')"
    and recv: "io_recvfrom io = Some (dgram, src)"
    and sa': "io_getsockname io = Some sa'"
  shows "length dgram < 1024"
    and "spec_encoded_size (io_remote_number io) (io_peer_authname io) \<le> 256"
    and "fst (ensure_upstream io st)"
    and "st' = (snd (ensure_upstream io st))
           \<lparr>transmitted := transmitted st
              @ [(dhcpv6relay_upstream (snd (ensure_upstream io st)),
                  forward_header (received_buffer dgram (io_stack io)) src
                  @ spec_options (unat (ntohs (io_little_endian io) (sin6_port sa')))
                      (io_remote_number io) (io_peer_authname io) dgram)]\<rparr>"
proof -
  let ?b = "received_buffer dgram (io_stack io)"
  let ?st1 = "snd (ensure_upstream io st)"
  note eq = client_event_eq [OF recv, of st]
  from ev show len: "length dgram < 1024"
    by (simp add: eq split: if_splits)
  from ev show up: "fst (ensure_upstream io st)"
    by (simp add: eq split: if_splits)
  from ev len up have fwd: "relay_forward io (length dgram) ?b src ?st1 = (Transmitted, st')"
    by (simp add: eq split: if_splits)
  then have t: "fst (relay_forward io (length dgram) ?b src ?st1) = Transmitted"
    by simp
  from relay_forward_TransmittedD(1) [OF t] sa' have fam: "sin6_family sa' \<noteq> AF_OTHER"
    by auto
  show fits: "spec_encoded_size (io_remote_number io) (io_peer_authname io) \<le> 256"
    by (rule relay_forward_TransmittedD(2) [OF t])
  have ok: "io_sendmsg_ok io"
    by (rule relay_forward_TransmittedD(3) [OF t])
  from fwd show "st' = ?st1
           \<lparr>transmitted := transmitted st
              @ [(dhcpv6relay_upstream ?st1,
                  forward_header ?b src
                  @ spec_options (unat (ntohs (io_little_endian io) (sin6_port sa')))
                      (io_remote_number io) (io_peer_authname io) dgram)]\<rparr>"
    using fits ok len
    by (simp add: relay_forward_eq [OF sa' fam] received_buffer_map spec_options_append
        ensure_upstream_frame)
qed

lemma client_event_Transmitted_sockname:
  assumes "fst (dhcpv6relay_client_event io st) = Transmitted"
    and "io_recvfrom io = Some (dgram, src)"
  shows "\<exists>sa'. io_getsockname io = Some sa'"
  using assms relay_forward_TransmittedD(1)
  by (simp add: client_event_eq [OF assms(2)] split: if_splits) blast

lemma client_event_no_datagram:
  "io_recvfrom io = None \<Longrightarrow> dhcpv6relay_client_event io st = (Read_failed, st)"
  by (simp add: dhcpv6relay_client_event_def recvfrom_def)

lemma client_event_not_transmitted:
  assumes "fst (dhcpv6relay_client_event io st) \<noteq> Transmitted"
  shows "transmitted (snd (dhcpv6relay_client_event io st)) = transmitted st"
proof (cases "io_recvfrom io")
  case None
  then show ?thesis by (simp add: client_event_no_datagram)
next
  case (Some a)
  obtain dgram src where a: "a = (dgram, src)" by (cases a)
  note eq = client_event_eq [OF Some [unfolded a], of st]
  let ?fwd = "relay_forward io (length dgram) (received_buffer dgram (io_stack io)) src
                (snd (ensure_upstream io st))"
  show ?thesis
  proof (cases "dhcpv6relay_client_event io st = ?fwd")
    case True
    with assms have "snd ?fwd = snd (ensure_upstream io st)"
      by (simp add: relay_forward_not_transmitted)
    with True show ?thesis by (simp add: ensure_upstream_frame)
  next
    case False
    then show ?thesis
      by (auto simp add: eq ensure_upstream_frame split: if_splits)
  qed
qed

lemma transmitted_last:
  assumes ev: "fst (dhcpv6relay_client_event io st) = Transmitted"
    and recv: "io_recvfrom io = Some (dgram, src)"
    and sa': "io_getsockname io = Some sa'"
  shows "transmitted (snd (dhcpv6relay_client_event io st)) = transmitted st
           @ [(dhcpv6relay_upstream (snd (dhcpv6relay_client_event io st)),
               forward_header (received_buffer dgram (io_stack io)) src
               @ spec_options (unat (ntohs (io_little_endian io) (sin6_port sa')))
                   (io_remote_number io) (io_peer_authname io) dgram)]"
proof -
  have "dhcpv6relay_client_event io st = (Transmitted, snd (dhcpv6relay_client_event io st))"
    using ev by (simp add: prod_eq_iff)
  from client_event_Transmitted(4) [OF this recv sa'] show ?thesis
    by (metis (no_types, lifting) relay.select_convs(5,8) relay.surjective relay.update_convs(8))
qed

text \<open>The example system relays whatever passes the checks of the handler.\<close>

lemma client_sends_relayed:
  assumes len: "length d < 1024"
    and reply: "received_buffer d (\<lambda>i. s) 0 \<noteq> DHCPv6_MSGTYPE_REPLY"
      "received_buffer d (\<lambda>i. s) 0 \<noteq> DHCPv6_MSGTYPE_RELAY_REPL"
    and relay: "dhcpv6relay_trusted st \<or> received_buffer d (\<lambda>i. s) 0 \<noteq> DHCPv6_MSGTYPE_RELAY_FORW"
    and up: "dhcpv6relay_upstream st < 0"
    and fits: "spec_encoded_size rid sid \<le> 256"
  shows "dhcpv6relay_client_event
           ((client_sends d s)\<lparr>io_remote_number := rid, io_peer_authname := sid\<rparr>) st
         = (Transmitted,
            st\<lparr>dhcpv6relay_upstream := 5, open_fds := insert 5 (open_fds st),
               transmitted := transmitted st
                 @ [(5, forward_header (received_buffer d (\<lambda>i. s)) client_source
                        @ spec_options 40000 rid sid d)]\<rparr>)"
proof -
  let ?io = "(client_sends d s)\<lparr>io_remote_number := rid, io_peer_authname := sid\<rparr>"
  have recv: "io_recvfrom ?io = Some (d, client_source)"
    by (simp add: client_sends_def)
  have stack: "io_stack ?io = (\<lambda>i. s)"
    by (simp add: client_sends_def)
  have ens: "ensure_upstream ?io st
      = (True, st\<lparr>dhcpv6relay_upstream := 5, open_fds := insert 5 (open_fds st)\<rparr>)"
    using ensure_upstream_created [OF up, of ?io 5] by (simp add: client_sends_def)
  have sa: "io_getsockname ?io = Some upstream_local" "sin6_family upstream_local \<noteq> AF_OTHER"
    by (simp_all add: client_sends_def upstream_local_def)
  have port: "io_little_endian (client_sends d s) = True"
    "ntohs True (sin6_port upstream_local) = 40000"
    by (simp_all add: client_sends_def upstream_local_def ntohs_htons)
  have ids: "io_remote_number ?io = rid" "io_peer_authname ?io = sid" "io_sendmsg_ok ?io"
    by (simp_all add: client_sends_def)
  have "dhcpv6relay_client_event ?io st
      = relay_forward ?io (length d) (received_buffer d (\<lambda>i. s)) client_source
          (st\<lparr>dhcpv6relay_upstream := 5, open_fds := insert 5 (open_fds st)\<rparr>)"
    using len reply relay by (auto simp add: client_event_eq [OF recv] stack ens)
  also have "\<dots> = (Transmitted,
            st\<lparr>dhcpv6relay_upstream := 5, open_fds := insert 5 (open_fds st),
               transmitted := transmitted st
                 @ [(5, forward_header (received_buffer d (\<lambda>i. s)) client_source
                        @ spec_options 40000 rid sid d)]\<rparr>)"
    using fits len
    by (simp add: relay_forward_eq [OF sa] port ids received_buffer_map spec_options_append)
  finally show ?thesis .
qed

lemma client_sends_plain:
  "(client_sends d s)\<lparr>io_remote_number := None, io_peer_authname := None\<rparr> = client_sends d s"
  by (simp add: client_sends_def)

lemma spec_encoded_size_eq:
  "spec_encoded_size rid sid
     = 44 + (case rid of None \<Rightarrow> 0 | Some s \<Rightarrow> 4 + length s)
          + (case sid of None \<Rightarrow> 0 | Some s \<Rightarrow> 4 + length s)"
  by (simp add: spec_encoded_size_def spec_optional_tlv_def split: option.splits)

lemma be16_bytes: "be16 (unat (t::uint16)) = [ucast (drop_bit 8 t), ucast t]"
proof -
  have "(of_nat (unat t) :: byte) = of_nat (unat t mod 256)"
    by (rule iffD2 [OF word_of_nat_eq_iff]) (simp add: take_bit_eq_mod)
  then have "(ucast t :: byte) = of_nat (unat t mod 256)"
    by simp
  then show ?thesis
    by (simp add: be16_def hi_byte)
qed

lemma forward_header_nth:
  "forward_header buffer sa ! 0 = DHCPv6_MSGTYPE_RELAY_FORW"
  "forward_header buffer sa ! Suc 0
     = (if buffer 0 = DHCPv6_MSGTYPE_RELAY_FORW then buffer (Suc 0) + 1 else 0)"
  by (simp_all add: forward_header_def)

lemma client_event_passes:
  assumes "passes_classification io st"
  shows "\<exists>r buffer sa. dhcpv6relay_client_event io st =
           (if fst (ensure_upstream io st)
            then relay_forward io r buffer sa (snd (ensure_upstream io st))
            else (Upstream_failed, snd (ensure_upstream io st)))"
  using assms
  by (auto simp add: passes_classification_def dhcpv6relay_client_event_def
      split: option.splits prod.splits bool.splits)

lemma client_event_upstream_kept:
  assumes "0 \<le> dhcpv6relay_upstream st"
  shows "dhcpv6relay_upstream (snd (dhcpv6relay_client_event io st)) = dhcpv6relay_upstream st"
    and "open_fds (snd (dhcpv6relay_client_event io st)) = open_fds st"
  using assms
  by (auto simp add: dhcpv6relay_client_event_def ensure_upstream_connected relay_forward_frame
      split: option.splits prod.splits bool.splits)

lemma client_event_listeners_kept:
  "dhcpv6relay_sock_ll (snd (dhcpv6relay_client_event io st)) = dhcpv6relay_sock_ll st"
  "dhcpv6relay_sock_mc (snd (dhcpv6relay_client_event io st)) = dhcpv6relay_sock_mc st"
  "fd_callbacks (snd (dhcpv6relay_client_event io st)) = fd_callbacks st"
  "dhcpv6relay_trusted (snd (dhcpv6relay_client_event io st)) = dhcpv6relay_trusted st"
proof -
  have "dhcpv6relay_sock_ll (snd (dhcpv6relay_client_event io st)) = dhcpv6relay_sock_ll st
      \<and> dhcpv6relay_sock_mc (snd (dhcpv6relay_client_event io st)) = dhcpv6relay_sock_mc st
      \<and> fd_callbacks (snd (dhcpv6relay_client_event io st)) = fd_callbacks st
      \<and> dhcpv6relay_trusted (snd (dhcpv6relay_client_event io st)) = dhcpv6relay_trusted st"
  proof (cases "io_recvfrom io")
    case None
    then show ?thesis by (simp add: client_event_no_datagram)
  next
    case (Some a)
    obtain dgram src where "a = (dgram, src)" by (cases a)
    with Some have recv: "io_recvfrom io = Some (dgram, src)" by simp
    show ?thesis
      by (simp add: client_event_eq [OF recv] relay_forward_frame ensure_upstream_frame)
  qed
  then show
    "dhcpv6relay_sock_ll (snd (dhcpv6relay_client_event io st)) = dhcpv6relay_sock_ll st"
    "dhcpv6relay_sock_mc (snd (dhcpv6relay_client_event io st)) = dhcpv6relay_sock_mc st"
    "fd_callbacks (snd (dhcpv6relay_client_event io st)) = fd_callbacks st"
    "dhcpv6relay_trusted (snd (dhcpv6relay_client_event io st)) = dhcpv6relay_trusted st"
    by simp_all
qed

lemma passes_classification_trusted:
  "dhcpv6relay_trusted st' = dhcpv6relay_trusted st \<Longrightarrow>
   passes_classification io st' = passes_classification io st"
  by (simp add: passes_classification_def split: option.splits prod.splits)

lemma dhcpv6relay_down_frame:
  "dhcpv6relay_upstream (dhcpv6relay_down st) = dhcpv6relay_upstream st"
  "transmitted (dhcpv6relay_down st) = transmitted st"
  "dhcpv6relay_trusted (dhcpv6relay_down st) = dhcpv6relay_trusted st"
  "dhcpv6relay_server (dhcpv6relay_down st) = dhcpv6relay_server st"
  by (simp_all add: dhcpv6relay_down_def remove_and_close_def Let_def)

lemma dhcpv6relay_down_fds:
  "open_fds (dhcpv6relay_down st)
     = open_fds st - (if 0 \<le> dhcpv6relay_sock_ll st then {dhcpv6relay_sock_ll st} else {})
                   - (if 0 \<le> dhcpv6relay_sock_mc st then {dhcpv6relay_sock_mc st} else {})"
  "fd_callbacks (dhcpv6relay_down st)
     = fd_callbacks st - (if 0 \<le> dhcpv6relay_sock_ll st then {dhcpv6relay_sock_ll st} else {})
                       - (if 0 \<le> dhcpv6relay_sock_mc st then {dhcpv6relay_sock_mc st} else {})"
  "dhcpv6relay_sock_ll (dhcpv6relay_down st) < 0"
  "dhcpv6relay_sock_mc (dhcpv6relay_down st) < 0"
  by (auto simp add: dhcpv6relay_down_def remove_and_close_def Let_def)

lemma dhcpv6relay_up_upstream:
  "dhcpv6relay_upstream (dhcpv6relay_up uio st) = dhcpv6relay_upstream st"
  by (simp add: dhcpv6relay_up_def Let_def dhcpv6relay_down_frame split: option.splits)

lemma dhcpv6relay_up_keeps_open:
  assumes "fd \<in> open_fds st"
    and "dhcpv6relay_sock_ll st < 0" and "dhcpv6relay_sock_mc st < 0"
    and "up_socket_ll uio \<noteq> Some (nat fd)" and "up_socket_mc uio \<noteq> Some (nat fd)"
    and "0 \<le> fd"
  shows "fd \<in> open_fds (dhcpv6relay_up uio st)"
  using assms
  by (auto simp add: dhcpv6relay_up_def Let_def dhcpv6relay_down_fds sys_socket_def opened_def
      split: option.splits)

lemma client_event_transmits_upstream:
  assumes "fst (dhcpv6relay_client_event io st) = Transmitted"
  shows "fst (last (transmitted (snd (dhcpv6relay_client_event io st))))
           = dhcpv6relay_upstream (snd (dhcpv6relay_client_event io st))"
proof -
  from assms obtain dgram src where recv: "io_recvfrom io = Some (dgram, src)"
    by (cases "io_recvfrom io") (auto simp add: client_event_no_datagram)
  from client_event_Transmitted_sockname [OF assms recv]
  obtain sa' where sa': "io_getsockname io = Some sa'" by blast
  show ?thesis
    by (simp add: transmitted_last [OF assms recv sa'])
qed

lemma client_sends_relayed_connected:
  assumes len: "length d < 1024"
    and reply: "received_buffer d (\<lambda>i. s) 0 \<noteq> DHCPv6_MSGTYPE_REPLY"
      "received_buffer d (\<lambda>i. s) 0 \<noteq> DHCPv6_MSGTYPE_RELAY_REPL"
    and relay: "dhcpv6relay_trusted st \<or> received_buffer d (\<lambda>i. s) 0 \<noteq> DHCPv6_MSGTYPE_RELAY_FORW"
    and up: "0 \<le> dhcpv6relay_upstream st"
  shows "dhcpv6relay_client_event (client_sends d s) st
         = (Transmitted,
            st\<lparr>transmitted := transmitted st
                 @ [(dhcpv6relay_upstream st,
                     forward_header (received_buffer d (\<lambda>i. s)) client_source
                     @ spec_options 40000 None None d)]\<rparr>)"
proof -
  let ?io = "client_sends d s"
  have recv: "io_recvfrom ?io = Some (d, client_source)"
    by (simp add: client_sends_def)
  have stack: "io_stack ?io = (\<lambda>i. s)"
    by (simp add: client_sends_def)
  have sa: "io_getsockname ?io = Some upstream_local" "sin6_family upstream_local \<noteq> AF_OTHER"
    by (simp_all add: client_sends_def upstream_local_def)
  have port: "io_little_endian ?io = True" "ntohs True (sin6_port upstream_local) = 40000"
    by (simp_all add: client_sends_def upstream_local_def ntohs_htons)
  have ids: "io_remote_number ?io = None" "io_peer_authname ?io = None" "io_sendmsg_ok ?io"
    by (simp_all add: client_sends_def)
  have "dhcpv6relay_client_event ?io st
      = relay_forward ?io (length d) (received_buffer d (\<lambda>i. s)) client_source st"
    using len reply relay
    by (auto simp add: client_event_eq [OF recv] stack ensure_upstream_connected [OF up])
  also have "\<dots> = (Transmitted,
            st\<lparr>transmitted := transmitted st
                 @ [(dhcpv6relay_upstream st,
                     forward_header (received_buffer d (\<lambda>i. s)) client_source
                     @ spec_options 40000 None None d)]\<rparr>)"
    using len
    by (simp add: relay_forward_eq [OF sa] port ids received_buffer_map spec_options_append
        spec_encoded_size_eq)
  finally show ?thesis .
qed

section \<open>Classification\<close>

text \<open>
  C1. For a datagram of 1 to 1023 bytes, the handler looks at byte 0. A REPLY or a
  RELAY_REPL is discarded whatever the trust flag; a RELAY_FORW is discarded exactly when
  the link is not trusted; every other value of byte 0, known or not, passes on both kinds
  of link, as does a RELAY_FORW on a trusted link: the handler then returns from the
  upstream stage or later, and transmits when the calls succeed and the options fit. A
  discarded message leaves the whole state as it was, so nothing is transmitted.
\<close>

theorem client_event_classification:
  assumes "io_recvfrom io = Some (dgram, src)"
    and "0 < length dgram" and "length dgram < 1024"
  shows "(dgram ! 0 = DHCPv6_MSGTYPE_REPLY \<or> dgram ! 0 = DHCPv6_MSGTYPE_RELAY_REPL \<longrightarrow>
            dhcpv6relay_client_event io st = (Discarded_reply, st))
    \<and> (dgram ! 0 = DHCPv6_MSGTYPE_RELAY_FORW \<and> \<not> dhcpv6relay_trusted st \<longrightarrow>
            dhcpv6relay_client_event io st = (Discarded_untrusted_relay, st))
    \<and> (dgram ! 0 \<noteq> DHCPv6_MSGTYPE_REPLY \<and> dgram ! 0 \<noteq> DHCPv6_MSGTYPE_RELAY_REPL
         \<and> (dgram ! 0 = DHCPv6_MSGTYPE_RELAY_FORW \<longrightarrow> dhcpv6relay_trusted st) \<longrightarrow>
            fst (dhcpv6relay_client_event io st)
              \<in> {Upstream_failed, Getsockname_failed, Not_IP, Overflow_avoided,
                  Transmit_failed, Transmitted}
            \<and> (calls_succeed io
                 \<and> spec_encoded_size (io_remote_number io) (io_peer_authname io) \<le> 256 \<longrightarrow>
                fst (dhcpv6relay_client_event io st) = Transmitted))
    \<and> (fst (dhcpv6relay_client_event io st) \<in> {Discarded_reply, Discarded_untrusted_relay} \<longrightarrow>
            snd (dhcpv6relay_client_event io st) = st)"
proof -
  let ?b = "received_buffer dgram (io_stack io)"
  let ?fwd = "relay_forward io (length dgram) ?b src (snd (ensure_upstream io st))"
  have b0: "?b 0 = dgram ! 0"
    using assms by (simp add: received_buffer_nth)
  note ev = client_event_eq [OF assms(1), of st]
  have reply: "dgram ! 0 = DHCPv6_MSGTYPE_REPLY \<or> dgram ! 0 = DHCPv6_MSGTYPE_RELAY_REPL \<Longrightarrow>
      dhcpv6relay_client_event io st = (Discarded_reply, st)"
    using assms(3) by (simp add: ev b0)
  have untrusted: "dgram ! 0 = DHCPv6_MSGTYPE_RELAY_FORW \<and> \<not> dhcpv6relay_trusted st \<Longrightarrow>
      dhcpv6relay_client_event io st = (Discarded_untrusted_relay, st)"
    using assms(3) by (simp add: ev b0 dhcpv6_consts)
  have pass: "dhcpv6relay_client_event io st =
      (if fst (ensure_upstream io st) then ?fwd else (Upstream_failed, snd (ensure_upstream io st)))"
    if "dgram ! 0 \<noteq> DHCPv6_MSGTYPE_REPLY \<and> dgram ! 0 \<noteq> DHCPv6_MSGTYPE_RELAY_REPL
         \<and> (dgram ! 0 = DHCPv6_MSGTYPE_RELAY_FORW \<longrightarrow> dhcpv6relay_trusted st)"
    using that assms(3) by (auto simp add: ev b0)
  have stage: "fst (dhcpv6relay_client_event io st)
              \<in> {Upstream_failed, Getsockname_failed, Not_IP, Overflow_avoided,
                  Transmit_failed, Transmitted}"
    if "dgram ! 0 \<noteq> DHCPv6_MSGTYPE_REPLY \<and> dgram ! 0 \<noteq> DHCPv6_MSGTYPE_RELAY_REPL
         \<and> (dgram ! 0 = DHCPv6_MSGTYPE_RELAY_FORW \<longrightarrow> dhcpv6relay_trusted st)"
    using relay_forward_outcomes [of io "length dgram" ?b src "snd (ensure_upstream io st)"]
    by (auto simp add: pass [OF that])
  have sent: "fst (dhcpv6relay_client_event io st) = Transmitted"
    if p: "dgram ! 0 \<noteq> DHCPv6_MSGTYPE_REPLY \<and> dgram ! 0 \<noteq> DHCPv6_MSGTYPE_RELAY_REPL
         \<and> (dgram ! 0 = DHCPv6_MSGTYPE_RELAY_FORW \<longrightarrow> dhcpv6relay_trusted st)"
      and c: "calls_succeed io"
      and fits: "spec_encoded_size (io_remote_number io) (io_peer_authname io) \<le> 256"
  proof -
    from c obtain sa' where sa': "io_getsockname io = Some sa'" "sin6_family sa' \<noteq> AF_OTHER"
      by (auto simp add: calls_succeed_def split: option.splits)
    from c have up: "fst (ensure_upstream io st)"
      by (simp add: calls_succeed_def ensure_upstream_succeeds)
    from c have "io_sendmsg_ok io"
      by (simp add: calls_succeed_def)
    then show ?thesis
      using fits up by (simp add: pass [OF p] relay_forward_eq [OF sa'])
  qed
  have dropped: "snd (dhcpv6relay_client_event io st) = st"
    if "fst (dhcpv6relay_client_event io st) \<in> {Discarded_reply, Discarded_untrusted_relay}"
    using that relay_forward_outcomes [of io "length dgram" ?b src "snd (ensure_upstream io st)"]
    by (auto simp add: ev split: if_splits)
  show ?thesis
    using reply untrusted stage sent dropped by blast
qed

theorem client_event_classification_witness:
  "io_recvfrom (client_sends [7] 0) = Some ([7], client_source)
   \<and> dhcpv6relay_client_event (client_sends [7] 0) relay_up = (Discarded_reply, relay_up)
   \<and> dhcpv6relay_client_event (client_sends [13] 0) (relay_up\<lparr>dhcpv6relay_trusted := True\<rparr>)
       = (Discarded_reply, relay_up\<lparr>dhcpv6relay_trusted := True\<rparr>)
   \<and> dhcpv6relay_client_event (client_sends [12, 0] 0) relay_up
       = (Discarded_untrusted_relay, relay_up)
   \<and> fst (dhcpv6relay_client_event (client_sends [12, 0] 0)
            (relay_up\<lparr>dhcpv6relay_trusted := True\<rparr>)) = Transmitted
   \<and> fst (dhcpv6relay_client_event (client_sends [1] 0) relay_up) = Transmitted
   \<and> fst (dhcpv6relay_client_event (client_sends [200] 0)
            (relay_up\<lparr>dhcpv6relay_trusted := True\<rparr>)) = Transmitted"
  using client_event_classification [of "client_sends [7] 0" "[7]" client_source relay_up]
    client_event_classification [of "client_sends [13] 0" "[13]" client_source
      "relay_up\<lparr>dhcpv6relay_trusted := True\<rparr>"]
    client_event_classification [of "client_sends [12, 0] 0" "[12, 0]" client_source relay_up]
    client_event_classification [of "client_sends [12, 0] 0" "[12, 0]" client_source
      "relay_up\<lparr>dhcpv6relay_trusted := True\<rparr>"]
    client_event_classification [of "client_sends [1] 0" "[1]" client_source relay_up]
    client_event_classification [of "client_sends [200] 0" "[200]" client_source
      "relay_up\<lparr>dhcpv6relay_trusted := True\<rparr>"]
  by (simp add: client_sends_def calls_succeed_def upstream_local_def relay_up_def
      spec_encoded_size_def spec_optional_tlv_def dhcpv6_consts)

section \<open>The options of a relayed message\<close>

text \<open>
  C2. When the handler transmits for a datagram \<open>dgram\<close>, it hands exactly one packet to
  \<^verbatim>\<open>sendmsg\<close>, on the upstream descriptor: the 34-byte header, then the RELAY_PORT
  option, then REMOTE_ID only if \<^verbatim>\<open>ppp_get_remote_number()\<close> gave a string, then
  SUBSCRIBER_ID only if \<^verbatim>\<open>ppp_peer_authname\<close> gave one, then RELAY_MSG, whose value is
  \<open>dgram\<close> itself and ends the packet. The length field of RELAY_MSG decodes to the length
  of \<open>dgram\<close>.
\<close>

theorem relay_forw_options_order:
  assumes "fst (dhcpv6relay_client_event io st) = Transmitted"
    and "io_recvfrom io = Some (dgram, src)"
    and "io_getsockname io = Some sa'"
  shows "transmitted (snd (dhcpv6relay_client_event io st)) = transmitted st
           @ [(dhcpv6relay_upstream (snd (dhcpv6relay_client_event io st)),
               forward_header (received_buffer dgram (io_stack io)) src
               @ spec_tlv DHCPv6_OPTION_RELAY_PORT
                   (be16 (unat (ntohs (io_little_endian io) (sin6_port sa'))))
               @ (case io_remote_number io of
                    None \<Rightarrow> [] | Some s \<Rightarrow> spec_tlv DHCPv6_OPTION_REMOTE_ID s)
               @ (case io_peer_authname io of
                    None \<Rightarrow> [] | Some s \<Rightarrow> spec_tlv DHCPv6_OPTION_SUBSCRIBER_ID s)
               @ be16 (unat DHCPv6_OPTION_RELAY_MSG) @ be16 (length dgram) @ dgram)]
     \<and> length (forward_header (received_buffer dgram (io_stack io)) src) = 34
     \<and> unat (be16 (length dgram) ! 0) * 256 + unat (be16 (length dgram) ! 1) = length dgram"
proof -
  have ev: "dhcpv6relay_client_event io st = (Transmitted, snd (dhcpv6relay_client_event io st))"
    using assms(1) by (simp add: prod_eq_iff)
  have "length dgram < 1024"
    by (rule client_event_Transmitted(1) [OF ev assms(2,3)])
  then have "unat (be16 (length dgram) ! 0) * 256 + unat (be16 (length dgram) ! 1) = length dgram"
    by (intro be16_decode) simp
  then show ?thesis
    using transmitted_last [OF assms]
    by (simp add: spec_options_def spec_optional_tlv_def spec_tlv_def)
qed

theorem relay_forw_options_order_witness:
  "fst (dhcpv6relay_client_event
         ((client_sends [1, 2, 3] 0)\<lparr>io_remote_number := Some [97, 98, 99],
            io_peer_authname := Some [120, 121, 122]\<rparr>) relay_up) = Transmitted
   \<and> transmitted (snd (dhcpv6relay_client_event
         ((client_sends [1, 2, 3] 0)\<lparr>io_remote_number := Some [97, 98, 99],
            io_peer_authname := Some [120, 121, 122]\<rparr>) relay_up))
     = [(5, [12, 0, 0, 0, 0, 0, 0, 0, 0, 0, 0, 0, 0, 0, 0, 0, 0, 0,
             254, 128, 0, 0, 0, 0, 0, 0, 0, 0, 0, 0, 0, 0, 0, 1,
             0, 135, 0, 2, 156, 64,
             0, 37, 0, 3, 97, 98, 99,
             0, 38, 0, 3, 120, 121, 122,
             0, 9, 0, 3, 1, 2, 3])]"
proof -
  let ?io = "(client_sends [1, 2, 3] 0)\<lparr>io_remote_number := Some [97, 98, 99],
            io_peer_authname := Some [120, 121, 122]\<rparr>"
  have t: "fst (dhcpv6relay_client_event ?io relay_up) = Transmitted"
    by (subst client_sends_relayed)
       (simp_all add: received_buffer_def dhcpv6_consts relay_up_def spec_encoded_size_eq)
  have recv: "io_recvfrom ?io = Some ([1, 2, 3], client_source)"
    and sa: "io_getsockname ?io = Some upstream_local"
    by (simp_all add: client_sends_def)
  have up: "dhcpv6relay_upstream (snd (dhcpv6relay_client_event ?io relay_up)) = 5"
    by (subst client_sends_relayed)
       (simp_all add: received_buffer_def dhcpv6_consts relay_up_def spec_encoded_size_eq)
  have port: "ntohs True (sin6_port upstream_local) = 40000"
    by (simp add: upstream_local_def ntohs_htons)
  have rep: "replicate 16 (0::byte) = [0, 0, 0, 0, 0, 0, 0, 0, 0, 0, 0, 0, 0, 0, 0, 0]"
    by (simp add: eval_nat_numeral)
  show ?thesis
    using relay_forw_options_order [OF t recv sa] t
    by (simp add: up)
       (simp add: client_sends_def port relay_up_def forward_header_def received_buffer_def
          client_source_def spec_tlv_def be16_def dhcpv6_consts upt_rec rep)
qed

section \<open>The RELAY_PORT option\<close>

text \<open>
  C3, as the code has it. The value of RELAY_PORT is not the source port of the client:
  \<^verbatim>\<open>sa\<close> is overwritten by \<^verbatim>\<open>getsockname(dhcpv6relay_upstream, ...)\<close> before the port
  is read (lines 245 to 264), so the option carries the local port of the upstream socket.
  Every transmitted packet has, right after the 34-byte header, the six bytes of that
  option: the code, the length 2, and the port with its high byte first, whatever the byte
  order of the host.
\<close>

theorem relay_port_option:
  assumes "fst (dhcpv6relay_client_event io st) = Transmitted"
    and "io_recvfrom io = Some (dgram, src)"
    and "io_getsockname io = Some sa'"
    and "sin6_port sa' = htons (io_little_endian io) port"
  shows "length (transmitted (snd (dhcpv6relay_client_event io st)))
           = length (transmitted st) + 1
     \<and> take 6 (drop 34 (snd (last (transmitted (snd (dhcpv6relay_client_event io st))))))
           = be16 (unat DHCPv6_OPTION_RELAY_PORT) @ be16 2 @ be16 (unat port)
     \<and> be16 (unat port) = [ucast (drop_bit 8 port), ucast port]"
proof -
  have "transmitted (snd (dhcpv6relay_client_event io st)) = transmitted st
           @ [(dhcpv6relay_upstream (snd (dhcpv6relay_client_event io st)),
               forward_header (received_buffer dgram (io_stack io)) src
               @ spec_options (unat port) (io_remote_number io) (io_peer_authname io) dgram)]"
    using transmitted_last [OF assms(1,2,3)] by (simp add: assms(4) ntohs_htons)
  then have "length (transmitted (snd (dhcpv6relay_client_event io st)))
           = length (transmitted st) + 1"
    and "take 6 (drop 34 (snd (last (transmitted (snd (dhcpv6relay_client_event io st))))))
           = be16 (unat DHCPv6_OPTION_RELAY_PORT) @ be16 2 @ be16 (unat port)"
    by (simp_all add: spec_options_def spec_tlv_def)
  then show ?thesis
    by (simp only: be16_bytes [of port])
qed

theorem relay_port_option_witness:
  "fst (dhcpv6relay_client_event (client_sends [1] 0) relay_up) = Transmitted
   \<and> io_recvfrom (client_sends [1] 0) = Some ([1], client_source)
   \<and> io_getsockname (client_sends [1] 0) = Some upstream_local
   \<and> sin6_port upstream_local = htons (io_little_endian (client_sends [1] 0)) 40000
   \<and> take 6 (drop 34 (snd (last (transmitted
         (snd (dhcpv6relay_client_event (client_sends [1] 0) relay_up))))))
       = [0, 135, 0, 2, 156, 64]"
proof -
  have t: "fst (dhcpv6relay_client_event (client_sends [1] 0) relay_up) = Transmitted"
    using client_sends_relayed [of "[1]" 0 relay_up None None]
    by (simp add: client_sends_plain received_buffer_def dhcpv6_consts relay_up_def
        spec_encoded_size_eq)
  have recv: "io_recvfrom (client_sends [1] 0) = Some ([1], client_source)"
    and sa: "io_getsockname (client_sends [1] 0) = Some upstream_local"
    and port: "sin6_port upstream_local = htons (io_little_endian (client_sends [1] 0)) 40000"
    by (simp_all add: client_sends_def upstream_local_def)
  show ?thesis
    using relay_port_option [OF t recv sa port] t recv sa port
    by (simp add: be16_def dhcpv6_consts)
qed

text \<open>
  The claim as stated fails: a client sends a SOLICIT from port 546 and the upstream socket
  is bound to port 40000; the option carries 40000.
\<close>

theorem relay_port_client_port_counterexample:
  "io_recvfrom (client_sends [1] 0) = Some ([1], client_source)
   \<and> ntohs True (sin6_port client_source) = 546
   \<and> take 2 (drop 38 (snd (last (transmitted
         (snd (dhcpv6relay_client_event (client_sends [1] 0) relay_up))))))
       = be16 40000
   \<and> be16 40000 \<noteq> be16 546"
proof -
  have "dhcpv6relay_client_event (client_sends [1] 0) relay_up
      = (Transmitted,
         relay_up\<lparr>dhcpv6relay_upstream := 5, open_fds := insert 5 (open_fds relay_up),
           transmitted := transmitted relay_up
             @ [(5, forward_header (received_buffer [1] (\<lambda>i. 0)) client_source
                    @ spec_options 40000 None None [1])]\<rparr>)"
    using client_sends_relayed [of "[1]" 0 relay_up None None]
    by (simp add: client_sends_plain received_buffer_def dhcpv6_consts relay_up_def
        spec_encoded_size_eq)
  then show ?thesis
    by (simp add: client_sends_def client_source_def ntohs_htons spec_options_def spec_tlv_def
        be16_def)
qed

section \<open>Capacity of the header buffer\<close>

text \<open>
  C4. Each push into \<^verbatim>\<open>fwd_head\<close> tests the capacity of 256 bytes first: it appends
  exactly when the bytes fit, and otherwise reports the error and ends the handler. For
  the strings \<open>rid\<close> and \<open>sid\<close> that pppd returns, the total encoded size is the 34-byte
  header, RELAY_PORT, the optional options, and code and length of RELAY_MSG. When it
  exceeds 256, the handler never transmits, whatever the system answers, and a run that
  gets as far as the options ends with the overflow error. When it is at most 256, a
  datagram that passes the checks is transmitted, if the calls succeed, as one packet with
  exactly the expected bytes: the header, the options in the wire format of the
  specification, and the datagram.
\<close>

theorem option_buffer_capacity:
  assumes "io_recvfrom io = Some (dgram, src)"
    and "io_getsockname io = Some sa'"
    and "length dgram < 1024"
    and "received_buffer dgram (io_stack io) 0 \<noteq> DHCPv6_MSGTYPE_REPLY"
    and "received_buffer dgram (io_stack io) 0 \<noteq> DHCPv6_MSGTYPE_RELAY_REPL"
    and "dhcpv6relay_trusted st
         \<or> received_buffer dgram (io_stack io) 0 \<noteq> DHCPv6_MSGTYPE_RELAY_FORW"
    and "calls_succeed io"
  shows "(push_uint16 t h = (if length h + 2 \<le> 256 then Some (h @ be16 (unat t)) else None))
     \<and> (push_bytes s (length s) h = (if length h + length s \<le> 256 then Some (h @ s) else None))
     \<and> (push_options le sport rid sid r (forward_header buffer sa) = Some h' \<longrightarrow>
          length h' \<le> 256)
     \<and> (256 < spec_encoded_size (io_remote_number io) (io_peer_authname io) \<longrightarrow>
          dhcpv6relay_client_event io st = (Overflow_avoided, snd (ensure_upstream io st))
          \<and> transmitted (snd (dhcpv6relay_client_event io st)) = transmitted st)
     \<and> (256 < spec_encoded_size (io_remote_number io') (io_peer_authname io') \<longrightarrow>
          fst (dhcpv6relay_client_event io' st) \<noteq> Transmitted
          \<and> transmitted (snd (dhcpv6relay_client_event io' st)) = transmitted st)
     \<and> (spec_encoded_size (io_remote_number io) (io_peer_authname io) \<le> 256 \<longrightarrow>
          dhcpv6relay_client_event io st
            = (Transmitted,
               (snd (ensure_upstream io st))
                 \<lparr>transmitted := transmitted st
                    @ [(dhcpv6relay_upstream (snd (ensure_upstream io st)),
                        forward_header (received_buffer dgram (io_stack io)) src
                        @ spec_options (unat (ntohs (io_little_endian io) (sin6_port sa')))
                            (io_remote_number io) (io_peer_authname io) dgram)]\<rparr>)
          \<and> length (forward_header (received_buffer dgram (io_stack io)) src
                     @ spec_options (unat (ntohs (io_little_endian io) (sin6_port sa')))
                         (io_remote_number io) (io_peer_authname io) dgram)
              = spec_encoded_size (io_remote_number io) (io_peer_authname io) + length dgram)"
proof -
  let ?b = "received_buffer dgram (io_stack io)"
  let ?st1 = "snd (ensure_upstream io st)"
  let ?size = "spec_encoded_size (io_remote_number io) (io_peer_authname io)"
  from assms(2,7) have fam: "sin6_family sa' \<noteq> AF_OTHER"
    by (simp add: calls_succeed_def)
  from assms(7) have up: "fst (ensure_upstream io st)" and ok: "io_sendmsg_ok io"
    by (simp_all add: calls_succeed_def ensure_upstream_succeeds)
  have ev: "dhcpv6relay_client_event io st = relay_forward io (length dgram) ?b src ?st1"
    using assms(3,4,5,6) up by (auto simp add: client_event_eq [OF assms(1)])
  have over: "dhcpv6relay_client_event io st = (Overflow_avoided, ?st1)" if "256 < ?size"
    using that by (simp add: ev relay_forward_eq [OF assms(2) fam])
  have over_frame: "transmitted (snd (dhcpv6relay_client_event io st)) = transmitted st"
    if "256 < ?size"
    by (simp add: over [OF that] ensure_upstream_frame)
  have never: "fst (dhcpv6relay_client_event io' st) \<noteq> Transmitted"
    if big: "256 < spec_encoded_size (io_remote_number io') (io_peer_authname io')"
  proof
    assume t: "fst (dhcpv6relay_client_event io' st) = Transmitted"
    then obtain d' s' where recv': "io_recvfrom io' = Some (d', s')"
      by (cases "io_recvfrom io'") (auto simp add: client_event_no_datagram)
    from client_event_Transmitted_sockname [OF t recv']
    obtain sa2 where sa2: "io_getsockname io' = Some sa2" by blast
    have "dhcpv6relay_client_event io' st
        = (Transmitted, snd (dhcpv6relay_client_event io' st))"
      using t by (simp add: prod_eq_iff)
    from client_event_Transmitted(2) [OF this recv' sa2] big show False
      by simp
  qed
  have never_frame: "transmitted (snd (dhcpv6relay_client_event io' st)) = transmitted st"
    if "256 < spec_encoded_size (io_remote_number io') (io_peer_authname io')"
    by (rule client_event_not_transmitted [OF never [OF that]])
  have fits: "dhcpv6relay_client_event io st
            = (Transmitted,
               ?st1\<lparr>transmitted := transmitted st
                    @ [(dhcpv6relay_upstream ?st1,
                        forward_header ?b src
                        @ spec_options (unat (ntohs (io_little_endian io) (sin6_port sa')))
                            (io_remote_number io) (io_peer_authname io) dgram)]\<rparr>)"
    if "?size \<le> 256"
    using that ok assms(3)
    by (simp add: ev relay_forward_eq [OF assms(2) fam] received_buffer_map
        spec_options_append ensure_upstream_frame)
  have size: "length (forward_header ?b src
                     @ spec_options (unat (ntohs (io_little_endian io) (sin6_port sa')))
                         (io_remote_number io) (io_peer_authname io) dgram)
              = ?size + length dgram"
    by (simp add: spec_options_def spec_encoded_size_def)
  have inside: "length h' \<le> 256"
    if "push_options le sport rid sid r (forward_header buffer sa) = Some h'"
    using that
    by (auto simp add: push_options_eq spec_encoded_size_def split: if_splits)
  show ?thesis
    using over over_frame never never_frame fits size inside
    by (simp add: push_uint16_eq push_bytes_eq)
qed

theorem option_buffer_capacity_witness:
  "calls_succeed ((client_sends [1] 0)\<lparr>io_remote_number := Some (replicate 208 65)\<rparr>)
   \<and> spec_encoded_size (Some (replicate 208 65)) None = 256
   \<and> fst (dhcpv6relay_client_event
           ((client_sends [1] 0)\<lparr>io_remote_number := Some (replicate 208 65)\<rparr>) relay_up)
       = Transmitted
   \<and> length (snd (last (transmitted (snd (dhcpv6relay_client_event
           ((client_sends [1] 0)\<lparr>io_remote_number := Some (replicate 208 65)\<rparr>) relay_up)))))
       = 257
   \<and> spec_encoded_size (Some (replicate 209 65)) None = 257
   \<and> fst (dhcpv6relay_client_event
           ((client_sends [1] 0)\<lparr>io_remote_number := Some (replicate 209 65)\<rparr>) relay_up)
       = Overflow_avoided
   \<and> transmitted (snd (dhcpv6relay_client_event
           ((client_sends [1] 0)\<lparr>io_remote_number := Some (replicate 209 65)\<rparr>) relay_up))
       = []
   \<and> push_uint16 9 (replicate 254 0) = Some (replicate 254 0 @ [0, 9])
   \<and> push_uint16 9 (replicate 255 0) = None"
proof -
  let ?a = "(client_sends [1] 0)\<lparr>io_remote_number := Some (replicate 208 65)\<rparr>"
  let ?b = "(client_sends [1] 0)\<lparr>io_remote_number := Some (replicate 209 65)\<rparr>"
  have a: "io_recvfrom ?a = Some ([1], client_source)" "io_getsockname ?a = Some upstream_local"
    "length [1 :: byte] < 1024"
    "received_buffer [1] (io_stack ?a) 0 \<noteq> DHCPv6_MSGTYPE_REPLY"
    "received_buffer [1] (io_stack ?a) 0 \<noteq> DHCPv6_MSGTYPE_RELAY_REPL"
    "dhcpv6relay_trusted relay_up
       \<or> received_buffer [1] (io_stack ?a) 0 \<noteq> DHCPv6_MSGTYPE_RELAY_FORW"
    "calls_succeed ?a"
    by (simp_all add: client_sends_def received_buffer_def dhcpv6_consts calls_succeed_def
        upstream_local_def)
  have b: "io_recvfrom ?b = Some ([1], client_source)" "io_getsockname ?b = Some upstream_local"
    "length [1 :: byte] < 1024"
    "received_buffer [1] (io_stack ?b) 0 \<noteq> DHCPv6_MSGTYPE_REPLY"
    "received_buffer [1] (io_stack ?b) 0 \<noteq> DHCPv6_MSGTYPE_RELAY_REPL"
    "dhcpv6relay_trusted relay_up
       \<or> received_buffer [1] (io_stack ?b) 0 \<noteq> DHCPv6_MSGTYPE_RELAY_FORW"
    "calls_succeed ?b"
    by (simp_all add: client_sends_def received_buffer_def dhcpv6_consts calls_succeed_def
        upstream_local_def)
  have ids: "io_remote_number ?a = Some (replicate 208 65)" "io_peer_authname ?a = None"
    "io_remote_number ?b = Some (replicate 209 65)" "io_peer_authname ?b = None"
    by (simp_all add: client_sends_def)
  have sizes: "spec_encoded_size (Some (replicate 208 65)) None = 256"
    "spec_encoded_size (Some (replicate 209 65)) None = 257"
    by (simp_all add: spec_encoded_size_eq)
  have tr: "transmitted relay_up = []"
    by (simp add: relay_up_def)
  show ?thesis
    using option_buffer_capacity [OF a, of 9 "replicate 254 0" "[]" True 0 None None 0
        "\<lambda>i. 0" client_source "[]" ?a]
      option_buffer_capacity [OF b, of 9 "replicate 255 0" "[]" True 0 None None 0
        "\<lambda>i. 0" client_source "[]" ?b]
    by (simp add: ids sizes tr a(7) be16_def dhcpv6_consts ensure_upstream_frame)
qed

section \<open>Hop count\<close>

text \<open>
  C5, as the code has it. The outer header starts with RELAY_FORW. Its second byte is 0
  when the datagram is not a RELAY_FORW. When it is one, with hop count \<open>N\<close> in its second
  byte, the outer hop count is \<^verbatim>\<open>buffer[1] + 1\<close> stored into an \<^verbatim>\<open>unsigned char\<close>:
  \<open>N + 1\<close> for \<open>N\<close> up to 254, and 0 for \<open>N = 255\<close>.
\<close>

theorem outer_hop_count:
  assumes "fst (dhcpv6relay_client_event io st) = Transmitted"
    and "io_recvfrom io = Some (dgram, src)"
    and "0 < length dgram"
  shows "snd (last (transmitted (snd (dhcpv6relay_client_event io st)))) ! 0
           = DHCPv6_MSGTYPE_RELAY_FORW
     \<and> (dgram ! 0 \<noteq> DHCPv6_MSGTYPE_RELAY_FORW \<longrightarrow>
          snd (last (transmitted (snd (dhcpv6relay_client_event io st)))) ! 1 = 0)
     \<and> (dgram ! 0 = DHCPv6_MSGTYPE_RELAY_FORW \<and> 2 \<le> length dgram \<longrightarrow>
          unat (snd (last (transmitted (snd (dhcpv6relay_client_event io st)))) ! 1)
            = (unat (dgram ! 1) + 1) mod 256)
     \<and> (dgram ! 0 = DHCPv6_MSGTYPE_RELAY_FORW \<and> 2 \<le> length dgram \<and> unat (dgram ! 1) < 255 \<longrightarrow>
          unat (snd (last (transmitted (snd (dhcpv6relay_client_event io st)))) ! 1)
            = unat (dgram ! 1) + 1)
     \<and> (dgram ! 0 = DHCPv6_MSGTYPE_RELAY_FORW \<and> 2 \<le> length dgram \<and> dgram ! 1 = 255 \<longrightarrow>
          snd (last (transmitted (snd (dhcpv6relay_client_event io st)))) ! 1 = 0)"
proof -
  let ?b = "received_buffer dgram (io_stack io)"
  let ?pkt = "snd (last (transmitted (snd (dhcpv6relay_client_event io st))))"
  from client_event_Transmitted_sockname [OF assms(1,2)]
  obtain sa' where sa': "io_getsockname io = Some sa'" by blast
  have ev: "dhcpv6relay_client_event io st = (Transmitted, snd (dhcpv6relay_client_event io st))"
    using assms(1) by (simp add: prod_eq_iff)
  have len: "length dgram < 1024"
    by (rule client_event_Transmitted(1) [OF ev assms(2) sa'])
  have pkt: "?pkt = forward_header ?b src
               @ spec_options (unat (ntohs (io_little_endian io) (sin6_port sa')))
                   (io_remote_number io) (io_peer_authname io) dgram"
    by (simp add: transmitted_last [OF assms(1,2) sa'])
  have p0: "?pkt ! 0 = DHCPv6_MSGTYPE_RELAY_FORW"
    by (simp add: pkt nth_append forward_header_nth)
  have p1: "?pkt ! 1 = (if ?b 0 = DHCPv6_MSGTYPE_RELAY_FORW then ?b 1 + 1 else 0)"
    by (simp add: pkt nth_append forward_header_nth)
  have b0: "?b 0 = dgram ! 0"
    using assms(3) len by (simp add: received_buffer_nth)
  have b1: "?b 1 = dgram ! 1" if "2 \<le> length dgram"
    using that len by (simp add: received_buffer_nth)
  have other: "?pkt ! 1 = 0" if "dgram ! 0 \<noteq> DHCPv6_MSGTYPE_RELAY_FORW"
    using that p1 b0 by simp
  have relay: "?pkt ! 1 = dgram ! 1 + 1"
    if "dgram ! 0 = DHCPv6_MSGTYPE_RELAY_FORW \<and> 2 \<le> length dgram"
    using that p1 b0 b1 by simp
  have wrap: "unat (?pkt ! 1) = (unat (dgram ! 1) + 1) mod 256"
    if "dgram ! 0 = DHCPv6_MSGTYPE_RELAY_FORW \<and> 2 \<le> length dgram"
    using relay [OF that] by (simp add: unat_word_ariths)
  have exact: "unat (?pkt ! 1) = unat (dgram ! 1) + 1"
    if "dgram ! 0 = DHCPv6_MSGTYPE_RELAY_FORW \<and> 2 \<le> length dgram \<and> unat (dgram ! 1) < 255"
    using that wrap by simp
  have zero: "?pkt ! 1 = 0"
    if "dgram ! 0 = DHCPv6_MSGTYPE_RELAY_FORW \<and> 2 \<le> length dgram \<and> dgram ! 1 = 255"
    using that relay by simp
  show ?thesis
    using p0 other wrap exact zero by blast
qed

theorem outer_hop_count_witness:
  "fst (dhcpv6relay_client_event (client_sends [12, 3] 0)
          (relay_up\<lparr>dhcpv6relay_trusted := True\<rparr>)) = Transmitted
   \<and> io_recvfrom (client_sends [12, 3] 0) = Some ([12, 3], client_source)
   \<and> snd (last (transmitted (snd (dhcpv6relay_client_event (client_sends [12, 3] 0)
          (relay_up\<lparr>dhcpv6relay_trusted := True\<rparr>))))) ! 0 = 12
   \<and> unat (snd (last (transmitted (snd (dhcpv6relay_client_event (client_sends [12, 3] 0)
          (relay_up\<lparr>dhcpv6relay_trusted := True\<rparr>))))) ! 1) = 4
   \<and> fst (dhcpv6relay_client_event (client_sends [1] 0) relay_up) = Transmitted
   \<and> snd (last (transmitted (snd (dhcpv6relay_client_event (client_sends [1] 0)
          relay_up)))) ! 1 = 0"
proof -
  have t: "fst (dhcpv6relay_client_event (client_sends [12, 3] 0)
          (relay_up\<lparr>dhcpv6relay_trusted := True\<rparr>)) = Transmitted"
    using client_sends_relayed [of "[12, 3]" 0 "relay_up\<lparr>dhcpv6relay_trusted := True\<rparr>" None None]
    by (simp add: client_sends_plain received_buffer_def dhcpv6_consts relay_up_def
        spec_encoded_size_eq)
  have recv: "io_recvfrom (client_sends [12, 3] 0) = Some ([12, 3], client_source)"
    by (simp add: client_sends_def)
  have t1: "fst (dhcpv6relay_client_event (client_sends [1] 0) relay_up) = Transmitted"
    using client_sends_relayed [of "[1]" 0 relay_up None None]
    by (simp add: client_sends_plain received_buffer_def dhcpv6_consts relay_up_def
        spec_encoded_size_eq)
  have recv1: "io_recvfrom (client_sends [1] 0) = Some ([1], client_source)"
    by (simp add: client_sends_def)
  show ?thesis
    using outer_hop_count [OF t recv] outer_hop_count [OF t1 recv1] t recv t1
    by (simp add: dhcpv6_consts)
qed

text \<open>
  The claim as stated fails at the largest hop count: a RELAY_FORW with hop count 255,
  arriving on a trusted link, is relayed with hop count 0, not 256.
\<close>

theorem hop_count_255_counterexample:
  "fst (dhcpv6relay_client_event (client_sends [12, 255] 0)
          (relay_up\<lparr>dhcpv6relay_trusted := True\<rparr>)) = Transmitted
   \<and> [12, 255 :: byte] ! 0 = DHCPv6_MSGTYPE_RELAY_FORW
   \<and> unat ([12, 255 :: byte] ! 1) = 255
   \<and> unat (snd (last (transmitted (snd (dhcpv6relay_client_event (client_sends [12, 255] 0)
          (relay_up\<lparr>dhcpv6relay_trusted := True\<rparr>))))) ! 1) = 0
   \<and> unat (snd (last (transmitted (snd (dhcpv6relay_client_event (client_sends [12, 255] 0)
          (relay_up\<lparr>dhcpv6relay_trusted := True\<rparr>))))) ! 1) \<noteq> 255 + 1"
proof -
  have "dhcpv6relay_client_event (client_sends [12, 255] 0)
          (relay_up\<lparr>dhcpv6relay_trusted := True\<rparr>)
      = (Transmitted,
         relay_up\<lparr>dhcpv6relay_trusted := True, dhcpv6relay_upstream := 5,
           open_fds := insert 5 (open_fds relay_up),
           transmitted := transmitted relay_up
             @ [(5, forward_header (received_buffer [12, 255] (\<lambda>i. 0)) client_source
                    @ spec_options 40000 None None [12, 255])]\<rparr>)"
    using client_sends_relayed [of "[12, 255]" 0 "relay_up\<lparr>dhcpv6relay_trusted := True\<rparr>"
        None None]
    by (simp add: client_sends_plain received_buffer_def dhcpv6_consts relay_up_def
        spec_encoded_size_eq)
  then show ?thesis
    by (simp add: nth_append forward_header_nth received_buffer_def dhcpv6_consts)
qed

section \<open>Datagram size\<close>

text \<open>
  C6, as the code has it. The handler reads into a 1024-byte array and rejects a result of
  1024 or more (line 209), so the largest datagram that is processed has 1023 bytes: a
  datagram of at most 1023 bytes reaches classification, and when it is transmitted the
  packet ends with all of its bytes; a datagram of 1024 bytes or more is reported as a
  buffer overrun before classification and leaves the state as it was, so nothing is sent,
  truncated or not.
\<close>

theorem datagram_size_limit:
  assumes "io_recvfrom io = Some (dgram, src)"
  shows "(length dgram \<le> 1023 \<longrightarrow>
            fst (dhcpv6relay_client_event io st) \<notin> {Read_failed, Buffer_overrun}
            \<and> (fst (dhcpv6relay_client_event io st) = Transmitted \<longrightarrow>
                 (\<exists>fd v0. transmitted (snd (dhcpv6relay_client_event io st))
                            = transmitted st @ [(fd, v0 @ dgram)])))
       \<and> (1024 \<le> length dgram \<longrightarrow> dhcpv6relay_client_event io st = (Buffer_overrun, st))"
proof -
  let ?b = "received_buffer dgram (io_stack io)"
  note eq = client_event_eq [OF assms, of st]
  have big: "dhcpv6relay_client_event io st = (Buffer_overrun, st)" if "1024 \<le> length dgram"
    using that by (simp add: eq)
  have small: "fst (dhcpv6relay_client_event io st) \<notin> {Read_failed, Buffer_overrun}"
    if "length dgram \<le> 1023"
    using that relay_forward_outcomes [of io "length dgram" ?b src "snd (ensure_upstream io st)"]
    by (auto simp add: eq)
  have whole: "\<exists>fd v0. transmitted (snd (dhcpv6relay_client_event io st))
                            = transmitted st @ [(fd, v0 @ dgram)]"
    if t: "fst (dhcpv6relay_client_event io st) = Transmitted"
  proof -
    from client_event_Transmitted_sockname [OF t assms]
    obtain sa' where sa': "io_getsockname io = Some sa'" by blast
    have ev: "dhcpv6relay_client_event io st = (Transmitted, snd (dhcpv6relay_client_event io st))"
      using t by (simp add: prod_eq_iff)
    have "transmitted (snd (dhcpv6relay_client_event io st))
        = transmitted st
          @ [(dhcpv6relay_upstream (snd (ensure_upstream io st)),
              (forward_header ?b src
               @ spec_tlv DHCPv6_OPTION_RELAY_PORT
                   (be16 (unat (ntohs (io_little_endian io) (sin6_port sa'))))
               @ spec_optional_tlv DHCPv6_OPTION_REMOTE_ID (io_remote_number io)
               @ spec_optional_tlv DHCPv6_OPTION_SUBSCRIBER_ID (io_peer_authname io)
               @ be16 (unat DHCPv6_OPTION_RELAY_MSG) @ be16 (length dgram)) @ dgram)]"
      by (subst client_event_Transmitted(4) [OF ev assms sa'])
         (simp add: spec_options_def spec_tlv_def)
    then show ?thesis by blast
  qed
  show ?thesis
    using big small whole by blast
qed

theorem datagram_size_limit_witness:
  "io_recvfrom (client_sends (replicate 1023 1) 0) = Some (replicate 1023 1, client_source)
   \<and> fst (dhcpv6relay_client_event (client_sends (replicate 1023 1) 0) relay_up)
       \<notin> {Read_failed, Buffer_overrun}
   \<and> dhcpv6relay_client_event (client_sends (replicate 1025 1) 0) relay_up
       = (Buffer_overrun, relay_up)"
  using datagram_size_limit [of "client_sends (replicate 1023 1) 0" "replicate 1023 1"
      client_source relay_up]
    datagram_size_limit [of "client_sends (replicate 1025 1) 0" "replicate 1025 1"
      client_source relay_up]
  by (simp add: client_sends_def)

text \<open>
  The claim as stated fails at the maximum size itself: a datagram of exactly 1024 bytes,
  here 1024 bytes of value 1 (a SOLICIT), is not processed but reported as a buffer
  overrun.
\<close>

theorem datagram_of_1024_bytes_counterexample:
  "length (replicate 1024 (1::byte)) = 1024
   \<and> dhcpv6relay_client_event (client_sends (replicate 1024 1) 0) relay_up
       = (Buffer_overrun, relay_up)"
  by (simp add: client_event_eq [of _ "replicate 1024 1" client_source] client_sends_def)

section \<open>The message-type byte of an empty datagram\<close>

text \<open>
  C7. A UDP datagram may be empty. \<^verbatim>\<open>recvfrom\<close> then returns 0, so index 0 is not
  below the number of bytes received. The value 0 passes both checks of the result (lines
  203 and 209), and the handler reads \<^verbatim>\<open>buffer[0]\<close>, a byte that was not received: the
  array is not initialised. The same empty datagram is discarded as a REPLY when the stack
  happens to hold 7 there, and relayed when it holds 1.
\<close>

theorem empty_datagram_type_byte:
  "map_option fst (recvfrom (client_sends [] 7)) = Some 0
   \<and> map_option fst (recvfrom (client_sends [] 1)) = Some 0
   \<and> dhcpv6relay_client_event (client_sends [] 7) relay_up = (Discarded_reply, relay_up)
   \<and> fst (dhcpv6relay_client_event (client_sends [] 1) relay_up) = Transmitted
   \<and> map snd (transmitted (snd (dhcpv6relay_client_event (client_sends [] 1) relay_up)))
       = [forward_header (received_buffer [] (io_stack (client_sends [] 1))) client_source
          @ spec_options 40000 None None []]"
proof -
  have a: "dhcpv6relay_client_event (client_sends [] 7) relay_up = (Discarded_reply, relay_up)"
    by (simp add: client_event_eq [of _ "[]" client_source] client_sends_def
        received_buffer_def dhcpv6_consts)
  have up: "ensure_upstream (client_sends [] 1) relay_up
      = (True, relay_up\<lparr>dhcpv6relay_upstream := 5, open_fds := insert 5 (open_fds relay_up)\<rparr>)"
    using ensure_upstream_created [of relay_up "client_sends [] 1" 5]
    by (simp add: client_sends_def relay_up_def)
  have sa: "io_getsockname (client_sends [] 1) = Some upstream_local"
    "sin6_family upstream_local \<noteq> AF_OTHER"
    by (simp_all add: client_sends_def upstream_local_def)
  have port: "ntohs True (sin6_port upstream_local) = 40000"
    by (simp add: upstream_local_def ntohs_htons)
  have recv: "io_recvfrom (client_sends [] 1) = Some ([], client_source)"
    by (simp add: client_sends_def)
  have b0: "received_buffer [] (io_stack (client_sends [] 1)) 0 = 1"
    by (simp add: received_buffer_def client_sends_def)
  have b: "dhcpv6relay_client_event (client_sends [] 1) relay_up
      = relay_forward (client_sends [] 1) 0 (received_buffer [] (io_stack (client_sends [] 1)))
          client_source
          (relay_up\<lparr>dhcpv6relay_upstream := 5, open_fds := insert 5 (open_fds relay_up)\<rparr>)"
    by (simp add: client_event_eq [OF recv] up b0 dhcpv6_consts)
  have c: "dhcpv6relay_client_event (client_sends [] 1) relay_up
      = (Transmitted,
         relay_up\<lparr>dhcpv6relay_upstream := 5, open_fds := insert 5 (open_fds relay_up),
           transmitted :=
             [(5, forward_header (received_buffer [] (io_stack (client_sends [] 1))) client_source
                  @ spec_options 40000 None None [])]\<rparr>)"
    by (simp add: b relay_forward_eq [OF sa])
       (simp add: port client_sends_def spec_encoded_size_def spec_optional_tlv_def
          spec_options_def spec_tlv_def relay_up_def)
  have r: "map_option fst (recvfrom (client_sends [] 7)) = Some 0"
    "map_option fst (recvfrom (client_sends [] 1)) = Some 0"
    by (simp_all add: recvfrom_def client_sends_def)
  show ?thesis
    by (simp add: a c r)
qed

section \<open>The upstream socket\<close>

text \<open>
  C8. For a datagram that passes classification:
  \<^item> when an upstream socket exists, the handler keeps it and opens nothing;
  \<^item> when there is none and \<^verbatim>\<open>socket\<close> and \<^verbatim>\<open>connect\<close> succeed, the new descriptor
    becomes the upstream socket, and every later run of the handler, whatever it reads,
    keeps that descriptor and opens nothing;
  \<^item> when there is none and \<^verbatim>\<open>socket\<close> or \<^verbatim>\<open>connect\<close> fails, the handler returns with
    the upstream error: nothing is transmitted, the upstream descriptor is -1, a
    descriptor that \<^verbatim>\<open>socket\<close> had returned is closed again, and the listening sockets
    and their callbacks are as before; the next datagram that passes classification makes
    the handler try again, and a success then installs the new descriptor.
\<close>

theorem upstream_lazy_connect:
  assumes "passes_classification io st"
  shows "(0 \<le> dhcpv6relay_upstream st \<longrightarrow>
            dhcpv6relay_upstream (snd (dhcpv6relay_client_event io st)) = dhcpv6relay_upstream st
            \<and> open_fds (snd (dhcpv6relay_client_event io st)) = open_fds st)
     \<and> (dhcpv6relay_upstream st < 0 \<and> io_socket io = Some fd \<and> io_connect_ok io \<longrightarrow>
            dhcpv6relay_upstream (snd (dhcpv6relay_client_event io st)) = int fd
            \<and> open_fds (snd (dhcpv6relay_client_event io st)) = insert (int fd) (open_fds st)
            \<and> dhcpv6relay_upstream
                 (snd (dhcpv6relay_client_event io2 (snd (dhcpv6relay_client_event io st))))
                = int fd
            \<and> open_fds
                 (snd (dhcpv6relay_client_event io2 (snd (dhcpv6relay_client_event io st))))
                = insert (int fd) (open_fds st))
     \<and> (dhcpv6relay_upstream st < 0 \<and> (io_socket io = None \<or> \<not> io_connect_ok io) \<longrightarrow>
            dhcpv6relay_client_event io st
              = (Upstream_failed,
                 st\<lparr>dhcpv6relay_upstream := -1,
                    open_fds := (case io_socket io of
                                   None \<Rightarrow> open_fds st
                                 | Some fd' \<Rightarrow> open_fds st - {int fd'})\<rparr>)
            \<and> ((case io_socket io of None \<Rightarrow> True | Some fd' \<Rightarrow> int fd' \<notin> open_fds st) \<longrightarrow>
                 snd (dhcpv6relay_client_event io st) = st\<lparr>dhcpv6relay_upstream := -1\<rparr>)
            \<and> (passes_classification io2 st \<and> io_socket io2 = Some fd2 \<and> io_connect_ok io2 \<longrightarrow>
                 dhcpv6relay_upstream
                   (snd (dhcpv6relay_client_event io2 (snd (dhcpv6relay_client_event io st))))
                  = int fd2))"
proof -
  let ?st' = "snd (dhcpv6relay_client_event io st)"
  from client_event_passes [OF assms]
  obtain r buffer sa where ev: "dhcpv6relay_client_event io st =
           (if fst (ensure_upstream io st)
            then relay_forward io r buffer sa (snd (ensure_upstream io st))
            else (Upstream_failed, snd (ensure_upstream io st)))"
    by blast
  have created: "dhcpv6relay_upstream ?st' = int fd
      \<and> open_fds ?st' = insert (int fd) (open_fds st)"
    if "dhcpv6relay_upstream st < 0 \<and> io_socket io = Some fd \<and> io_connect_ok io"
    using that by (simp add: ev ensure_upstream_created relay_forward_frame)
  have reused: "dhcpv6relay_upstream (snd (dhcpv6relay_client_event io2 ?st')) = int fd
      \<and> open_fds (snd (dhcpv6relay_client_event io2 ?st')) = insert (int fd) (open_fds st)"
    if c: "dhcpv6relay_upstream st < 0 \<and> io_socket io = Some fd \<and> io_connect_ok io"
  proof -
    from created [OF c] have "0 \<le> dhcpv6relay_upstream ?st'" by simp
    from client_event_upstream_kept [OF this, of io2] created [OF c] show ?thesis
      by simp
  qed
  have failed: "dhcpv6relay_client_event io st
              = (Upstream_failed,
                 st\<lparr>dhcpv6relay_upstream := -1,
                    open_fds := (case io_socket io of
                                   None \<Rightarrow> open_fds st
                                 | Some fd' \<Rightarrow> open_fds st - {int fd'})\<rparr>)"
    if "dhcpv6relay_upstream st < 0 \<and> (io_socket io = None \<or> \<not> io_connect_ok io)"
    using that by (simp add: ev ensure_upstream_failed)
  have retried: "dhcpv6relay_upstream (snd (dhcpv6relay_client_event io2 ?st')) = int fd2"
    if f: "dhcpv6relay_upstream st < 0 \<and> (io_socket io = None \<or> \<not> io_connect_ok io)"
      and p: "passes_classification io2 st \<and> io_socket io2 = Some fd2 \<and> io_connect_ok io2"
  proof -
    have p2: "passes_classification io2 ?st'"
      using p by (simp add: passes_classification_trusted [of ?st' st] client_event_listeners_kept)
    have neg: "dhcpv6relay_upstream ?st' < 0"
      by (simp add: failed [OF f])
    from client_event_passes [OF p2]
    obtain r2 buffer2 sa2 where ev2: "dhcpv6relay_client_event io2 ?st' =
           (if fst (ensure_upstream io2 ?st')
            then relay_forward io2 r2 buffer2 sa2 (snd (ensure_upstream io2 ?st'))
            else (Upstream_failed, snd (ensure_upstream io2 ?st')))"
      by blast
    show ?thesis
      using p neg by (simp add: ev2 ensure_upstream_created relay_forward_frame)
  qed
  have fresh: "snd (dhcpv6relay_client_event io st) = st\<lparr>dhcpv6relay_upstream := -1\<rparr>"
    if f: "dhcpv6relay_upstream st < 0 \<and> (io_socket io = None \<or> \<not> io_connect_ok io)"
      and n: "case io_socket io of None \<Rightarrow> True | Some fd' \<Rightarrow> int fd' \<notin> open_fds st"
    using n by (cases "io_socket io") (simp_all add: failed [OF f])
  show ?thesis
    using client_event_upstream_kept [of st io] created reused failed retried fresh
    by blast
qed

theorem upstream_lazy_connect_witness:
  "passes_classification (client_sends [1] 0) relay_up
   \<and> dhcpv6relay_upstream relay_up < 0
   \<and> dhcpv6relay_client_event ((client_sends [1] 0)\<lparr>io_connect_ok := False\<rparr>) relay_up
       = (Upstream_failed, relay_up)
   \<and> dhcpv6relay_client_event ((client_sends [1] 0)\<lparr>io_socket := None\<rparr>) relay_up
       = (Upstream_failed, relay_up)
   \<and> dhcpv6relay_upstream (snd (dhcpv6relay_client_event (client_sends [1] 0)
         (snd (dhcpv6relay_client_event ((client_sends [1] 0)\<lparr>io_connect_ok := False\<rparr>)
                 relay_up)))) = 5
   \<and> dhcpv6relay_upstream (snd (dhcpv6relay_client_event (client_sends [1] 0) relay_up)) = 5
   \<and> open_fds (snd (dhcpv6relay_client_event (client_sends [1] 0) relay_up)) = {5, 3, 4}
   \<and> dhcpv6relay_upstream (snd (dhcpv6relay_client_event (client_sends [3] 0)
         (snd (dhcpv6relay_client_event (client_sends [1] 0) relay_up)))) = 5
   \<and> open_fds (snd (dhcpv6relay_client_event (client_sends [3] 0)
         (snd (dhcpv6relay_client_event (client_sends [1] 0) relay_up)))) = {5, 3, 4}"
proof -
  have p: "passes_classification (client_sends [1] 0) relay_up"
    "passes_classification ((client_sends [1] 0)\<lparr>io_connect_ok := False\<rparr>) relay_up"
    "passes_classification ((client_sends [1] 0)\<lparr>io_socket := None\<rparr>) relay_up"
    by (simp_all add: passes_classification_def recvfrom_def client_sends_def
        received_buffer_def dhcpv6_consts relay_up_def)
  have io: "io_socket (client_sends [1] 0) = Some 5" "io_connect_ok (client_sends [1] 0)"
    by (simp_all add: client_sends_def)
  have st: "dhcpv6relay_upstream relay_up < 0" "open_fds relay_up = {3, 4}"
    "relay_up\<lparr>dhcpv6relay_upstream := -1\<rparr> = relay_up"
    by (simp_all add: relay_up_def)
  show ?thesis
    using upstream_lazy_connect [OF p(1), of 5 "client_sends [3] 0" 5]
      upstream_lazy_connect [OF p(2), of 5 "client_sends [1] 0" 5]
      upstream_lazy_connect [OF p(3), of 5 "client_sends [1] 0" 5]
    by (simp add: p io st) (simp add: client_sends_def relay_up_def)
qed

section \<open>Link-down\<close>

text \<open>
  C9. Tearing the link down when both listening descriptors are already absent (negative)
  changes nothing, and tearing down twice is the same as tearing down once.
  \<^verbatim>\<open>dhcpv6relay_down\<close> returns \<^verbatim>\<open>void\<close> and has no error path.
\<close>

theorem dhcpv6relay_down_idempotent:
  "(dhcpv6relay_sock_ll st < 0 \<and> dhcpv6relay_sock_mc st < 0 \<longrightarrow> dhcpv6relay_down st = st)
   \<and> dhcpv6relay_down (dhcpv6relay_down st) = dhcpv6relay_down st"
  by (simp add: dhcpv6relay_down_def remove_and_close_def Let_def)

theorem dhcpv6relay_down_idempotent_witness:
  "dhcpv6relay_sock_ll relay_initial < 0 \<and> dhcpv6relay_sock_mc relay_initial < 0
   \<and> dhcpv6relay_down relay_initial = relay_initial
   \<and> dhcpv6relay_sock_ll (dhcpv6relay_down relay_connected) < 0
   \<and> dhcpv6relay_sock_mc (dhcpv6relay_down relay_connected) < 0
   \<and> dhcpv6relay_down relay_connected \<noteq> relay_connected
   \<and> dhcpv6relay_down (dhcpv6relay_down relay_connected) = dhcpv6relay_down relay_connected"
proof -
  have down: "dhcpv6relay_down relay_connected
     = relay_connected\<lparr>dhcpv6relay_sock_ll := -1, dhcpv6relay_sock_mc := -1,
         open_fds := {5}, fd_callbacks := {}\<rparr>"
    by (auto simp add: dhcpv6relay_down_def remove_and_close_def relay_connected_def
        relay_up_def Let_def)
  have neg: "dhcpv6relay_sock_ll (dhcpv6relay_down relay_connected) < 0"
    "dhcpv6relay_sock_mc (dhcpv6relay_down relay_connected) < 0"
    by (simp_all add: down)
  have changed: "dhcpv6relay_down relay_connected \<noteq> relay_connected"
  proof
    assume "dhcpv6relay_down relay_connected = relay_connected"
    then have "dhcpv6relay_sock_ll (dhcpv6relay_down relay_connected)
        = dhcpv6relay_sock_ll relay_connected"
      by simp
    then show False
      by (simp add: down) (simp add: relay_connected_def relay_up_def)
  qed
  show ?thesis
    using dhcpv6relay_down_idempotent [of relay_initial]
      dhcpv6relay_down_idempotent [of "dhcpv6relay_down relay_connected"] neg changed
    by (simp add: relay_initial_def)
qed

section \<open>Link-down and the upstream socket\<close>

text \<open>
  C10. \<^verbatim>\<open>dhcpv6relay_down\<close> closes and unregisters the two listening descriptors, when
  they are present, and nothing else: the upstream descriptor keeps its value and, being a
  different descriptor, stays open. \<^verbatim>\<open>dhcpv6relay_up\<close> does not touch it either, so after
  a link-down and a link-up the handler finds the upstream socket in place, keeps it,
  opens no other, and writes what it transmits to that descriptor.
\<close>

theorem link_down_keeps_upstream:
  "dhcpv6relay_upstream (dhcpv6relay_down st) = dhcpv6relay_upstream st
   \<and> transmitted (dhcpv6relay_down st) = transmitted st
   \<and> open_fds (dhcpv6relay_down st)
       = open_fds st - (if 0 \<le> dhcpv6relay_sock_ll st then {dhcpv6relay_sock_ll st} else {})
                     - (if 0 \<le> dhcpv6relay_sock_mc st then {dhcpv6relay_sock_mc st} else {})
   \<and> fd_callbacks (dhcpv6relay_down st)
       = fd_callbacks st - (if 0 \<le> dhcpv6relay_sock_ll st then {dhcpv6relay_sock_ll st} else {})
                         - (if 0 \<le> dhcpv6relay_sock_mc st then {dhcpv6relay_sock_mc st} else {})
   \<and> (dhcpv6relay_upstream st \<in> open_fds st
        \<and> dhcpv6relay_upstream st \<noteq> dhcpv6relay_sock_ll st
        \<and> dhcpv6relay_upstream st \<noteq> dhcpv6relay_sock_mc st \<longrightarrow>
          dhcpv6relay_upstream st \<in> open_fds (dhcpv6relay_down st))
   \<and> dhcpv6relay_upstream (dhcpv6relay_up uio (dhcpv6relay_down st)) = dhcpv6relay_upstream st
   \<and> (0 \<le> dhcpv6relay_upstream st
        \<and> dhcpv6relay_upstream st \<in> open_fds st
        \<and> dhcpv6relay_upstream st \<noteq> dhcpv6relay_sock_ll st
        \<and> dhcpv6relay_upstream st \<noteq> dhcpv6relay_sock_mc st
        \<and> up_socket_ll uio \<noteq> Some (nat (dhcpv6relay_upstream st))
        \<and> up_socket_mc uio \<noteq> Some (nat (dhcpv6relay_upstream st)) \<longrightarrow>
          dhcpv6relay_upstream st \<in> open_fds (dhcpv6relay_up uio (dhcpv6relay_down st)))
   \<and> (0 \<le> dhcpv6relay_upstream st \<longrightarrow>
          dhcpv6relay_upstream
            (snd (dhcpv6relay_client_event io (dhcpv6relay_up uio (dhcpv6relay_down st))))
           = dhcpv6relay_upstream st
          \<and> open_fds
              (snd (dhcpv6relay_client_event io (dhcpv6relay_up uio (dhcpv6relay_down st))))
             = open_fds (dhcpv6relay_up uio (dhcpv6relay_down st)))
   \<and> (0 \<le> dhcpv6relay_upstream st
        \<and> fst (dhcpv6relay_client_event io (dhcpv6relay_up uio (dhcpv6relay_down st)))
            = Transmitted \<longrightarrow>
          fst (last (transmitted
            (snd (dhcpv6relay_client_event io (dhcpv6relay_up uio (dhcpv6relay_down st))))))
           = dhcpv6relay_upstream st)"
proof -
  let ?down = "dhcpv6relay_down st"
  let ?up = "dhcpv6relay_up uio ?down"
  have still_open: "dhcpv6relay_upstream st \<in> open_fds ?down"
    if "dhcpv6relay_upstream st \<in> open_fds st
        \<and> dhcpv6relay_upstream st \<noteq> dhcpv6relay_sock_ll st
        \<and> dhcpv6relay_upstream st \<noteq> dhcpv6relay_sock_mc st"
    using that by (simp add: dhcpv6relay_down_fds)
  have up_same: "dhcpv6relay_upstream ?up = dhcpv6relay_upstream st"
    by (simp add: dhcpv6relay_up_upstream dhcpv6relay_down_frame)
  have open_after_up: "dhcpv6relay_upstream st \<in> open_fds ?up"
    if c: "0 \<le> dhcpv6relay_upstream st
        \<and> dhcpv6relay_upstream st \<in> open_fds st
        \<and> dhcpv6relay_upstream st \<noteq> dhcpv6relay_sock_ll st
        \<and> dhcpv6relay_upstream st \<noteq> dhcpv6relay_sock_mc st
        \<and> up_socket_ll uio \<noteq> Some (nat (dhcpv6relay_upstream st))
        \<and> up_socket_mc uio \<noteq> Some (nat (dhcpv6relay_upstream st))"
    using c still_open
    by (intro dhcpv6relay_up_keeps_open) (simp_all add: dhcpv6relay_down_fds)
  have kept: "dhcpv6relay_upstream (snd (dhcpv6relay_client_event io ?up))
           = dhcpv6relay_upstream st
          \<and> open_fds (snd (dhcpv6relay_client_event io ?up)) = open_fds ?up"
    if "0 \<le> dhcpv6relay_upstream st"
    using that client_event_upstream_kept [of ?up io] by (simp add: up_same)
  have written: "fst (last (transmitted (snd (dhcpv6relay_client_event io ?up))))
           = dhcpv6relay_upstream st"
    if "0 \<le> dhcpv6relay_upstream st
        \<and> fst (dhcpv6relay_client_event io ?up) = Transmitted"
    using that kept client_event_transmits_upstream [of io ?up] by simp
  show ?thesis
    using still_open up_same open_after_up kept written
    by (simp add: dhcpv6relay_down_frame dhcpv6relay_down_fds)
qed

theorem link_down_keeps_upstream_witness:
  "dhcpv6relay_down relay_connected
     = relay_connected\<lparr>dhcpv6relay_sock_ll := -1, dhcpv6relay_sock_mc := -1,
         open_fds := {5}, fd_callbacks := {}\<rparr>
   \<and> dhcpv6relay_upstream (dhcpv6relay_down relay_connected) = 5
   \<and> dhcpv6relay_upstream relay_connected \<in> open_fds (dhcpv6relay_down relay_connected)
   \<and> dhcpv6relay_up link_up_ok (dhcpv6relay_down relay_connected) = relay_connected
   \<and> fst (dhcpv6relay_client_event (client_sends [1] 0)
          (dhcpv6relay_up link_up_ok (dhcpv6relay_down relay_connected))) = Transmitted
   \<and> fst (last (transmitted (snd (dhcpv6relay_client_event (client_sends [1] 0)
          (dhcpv6relay_up link_up_ok (dhcpv6relay_down relay_connected)))))) = 5
   \<and> open_fds (snd (dhcpv6relay_client_event (client_sends [1] 0)
          (dhcpv6relay_up link_up_ok (dhcpv6relay_down relay_connected)))) = {3, 4, 5}"
proof -
  have down: "dhcpv6relay_down relay_connected
     = relay_connected\<lparr>dhcpv6relay_sock_ll := -1, dhcpv6relay_sock_mc := -1,
         open_fds := {5}, fd_callbacks := {}\<rparr>"
    by (auto simp add: dhcpv6relay_down_def remove_and_close_def relay_connected_def
        relay_up_def Let_def)
  have up: "dhcpv6relay_up link_up_ok (dhcpv6relay_down relay_connected) = relay_connected"
    by (simp only: down)
       (auto simp add: dhcpv6relay_up_def dhcpv6relay_populate_ll_def link_up_ok_def
        ppp_link_local_def sys_socket_def opened_def relay_connected_def relay_up_def Let_def)
  have t: "fst (dhcpv6relay_client_event (client_sends [1] 0) relay_connected) = Transmitted"
    using client_sends_relayed_connected [of "[1]" 0 relay_connected]
    by (simp add: received_buffer_def dhcpv6_consts relay_connected_def relay_up_def)
  have st: "dhcpv6relay_upstream relay_connected = 5" "open_fds relay_connected = {3, 4, 5}"
    "dhcpv6relay_sock_ll relay_connected = 3" "dhcpv6relay_sock_mc relay_connected = 4"
    by (simp_all add: relay_connected_def relay_up_def)
  show ?thesis
    using link_down_keeps_upstream [of relay_connected link_up_ok "client_sends [1] 0"] t
    by (simp add: up st) (simp add: down)
qed

end
